theory Spec2Isabelle
  imports Main "HOL-Library.Word"
begin

unbundle bit_operations_syntax

section \<open>JavaScript values\<close>

text \<open>
  The values that flow through \<^verbatim>\<open>collectionWrapper.js\<close>: the arguments of a call, cache
  entries, query results, errors and collection handles. Objects are association lists in
  property enumeration order (well-formed objects have distinct keys); a function carries
  the source text that \<^verbatim>\<open>toString()\<close> returns. Numbers are the integer-valued ones, strings
  are byte strings.
\<close>

datatype jsval =
    Undefined
  | Null
  | Bool bool
  | Num int
  | Str string
  | Arr "jsval list"
  | Obj "(string \<times> jsval) list"
  | Fun string

text \<open>The \<^verbatim>\<open>typeof\<close> operator.\<close>

fun typeof :: "jsval \<Rightarrow> string" where
  "typeof Undefined = ''undefined''"
| "typeof Null = ''object''"
| "typeof (Bool _) = ''boolean''"
| "typeof (Num _) = ''number''"
| "typeof (Str _) = ''string''"
| "typeof (Arr _) = ''object''"
| "typeof (Obj _) = ''object''"
| "typeof (Fun _) = ''function''"

text \<open>Truthiness, as \<^verbatim>\<open>!\<close>, \<^verbatim>\<open>&&\<close>, \<^verbatim>\<open>||\<close> and \<^verbatim>\<open>?:\<close> test it.\<close>

fun truthy :: "jsval \<Rightarrow> bool" where
  "truthy Undefined = False"
| "truthy Null = False"
| "truthy (Bool b) = b"
| "truthy (Num n) = (n \<noteq> 0)"
| "truthy (Str s) = (s \<noteq> [])"
| "truthy (Arr _) = True"
| "truthy (Obj _) = True"
| "truthy (Fun _) = True"

definition js_and :: "jsval \<Rightarrow> jsval \<Rightarrow> jsval" where
  "js_and a b = (if truthy a then b else a)"

definition js_or :: "jsval \<Rightarrow> jsval \<Rightarrow> jsval" where
  "js_or a b = (if truthy a then a else b)"

definition nullish :: "jsval \<Rightarrow> bool" where
  "nullish v = (v = Undefined \<or> v = Null)"

text \<open>
  Reading a property \<^verbatim>\<open>v.k\<close> of a value that is neither \<^verbatim>\<open>undefined\<close> nor \<^verbatim>\<open>null\<close>.
  The code reads only \<^verbatim>\<open>cacheCollectionName\<close>, \<^verbatim>\<open>forceUpdateCache\<close>, \<^verbatim>\<open>out\<close>,
  \<^verbatim>\<open>inline\<close>, \<^verbatim>\<open>cachedResult\<close> and \<^verbatim>\<open>collectionName\<close>, none of which a primitive,
  an array or a function has of its own, so those read as \<^verbatim>\<open>undefined\<close>. On \<^verbatim>\<open>undefined\<close>
  and \<^verbatim>\<open>null\<close> the read throws a TypeError: every caller below tests \<open>nullish\<close> or
  truthiness first, exactly where the source is guarded, and throws where it is not.
\<close>

fun get_prop :: "jsval \<Rightarrow> string \<Rightarrow> jsval" where
  "get_prop (Obj kvs) k = (case map_of kvs k of Some v \<Rightarrow> v | None \<Rightarrow> Undefined)"
| "get_prop _ k = Undefined"

text \<open>Reading an array element \<^verbatim>\<open>xs[i]\<close>: \<^verbatim>\<open>undefined\<close> out of range.\<close>

definition index :: "jsval list \<Rightarrow> nat \<Rightarrow> jsval" where
  "index xs i = (if i < length xs then xs ! i else Undefined)"

text \<open>The error value of a failed property read or call.\<close>

definition TypeError :: jsval where
  "TypeError = Obj [(''name'', Str ''TypeError'')]"

text \<open>
  lodash's \<^verbatim>\<open>_.isEmpty\<close>: \<^verbatim>\<open>null\<close> and \<^verbatim>\<open>undefined\<close> are empty, strings and arrays are
  empty when their length is 0, and anything else is empty when it has no own enumerable
  property (so numbers, booleans and plain functions are empty).
\<close>

fun isEmpty :: "jsval \<Rightarrow> bool" where
  "isEmpty (Str s) = (s = [])"
| "isEmpty (Arr xs) = (xs = [])"
| "isEmpty (Obj kvs) = (kvs = [])"
| "isEmpty _ = True"

section \<open>JSON.stringify\<close>

definition hex_digit :: "nat \<Rightarrow> char" where
  "hex_digit n = (''0123456789abcdef'') ! (n mod 16)"

text \<open>The escape of one character of a string: \<^verbatim>\<open>QuoteJSONString\<close> of ECMAScript.\<close>

definition escape_char :: "char \<Rightarrow> string" where
  "escape_char c =
     (let n = (of_char c :: nat) in
      if n = 0x22 then [CHR 0x5C, CHR 0x22]
      else if n = 0x5C then [CHR 0x5C, CHR 0x5C]
      else if n = 0x08 then [CHR 0x5C, CHR ''b'']
      else if n = 0x0C then [CHR 0x5C, CHR ''f'']
      else if n = 0x0A then [CHR 0x5C, CHR ''n'']
      else if n = 0x0D then [CHR 0x5C, CHR ''r'']
      else if n = 0x09 then [CHR 0x5C, CHR ''t'']
      else if n < 0x20 then [CHR 0x5C, CHR ''u'', CHR ''0'', CHR ''0'', hex_digit (n div 16), hex_digit n]
      else [c])"

definition quote :: "string \<Rightarrow> string" where
  "quote s = [CHR 0x22] @ concat (map escape_char s) @ [CHR 0x22]"

function dec_nat :: "nat \<Rightarrow> string" where
  "dec_nat n = (if n < 10 then [hex_digit n] else dec_nat (n div 10) @ [hex_digit (n mod 10)])"
  by pat_completeness auto
termination
  by (relation "measure id") auto

declare dec_nat.simps [simp del]

definition number_to_string :: "int \<Rightarrow> string" where
  "number_to_string i = (if i < 0 then ''-'' @ dec_nat (nat (- i)) else dec_nat (nat i))"

fun commas :: "string list \<Rightarrow> string" where
  "commas [] = []"
| "commas [x] = x"
| "commas (x # y # ys) = x @ '','' @ commas (y # ys)"

text \<open>
  \<^verbatim>\<open>SerializeJSONProperty\<close>: \<open>None\<close> is the \<^verbatim>\<open>undefined\<close> that \<^verbatim>\<open>undefined\<close> and functions
  serialize to; an array writes \<^verbatim>\<open>null\<close> in their place, an object leaves the property
  out.
\<close>

fun JSON_stringify :: "jsval \<Rightarrow> string option" where
  "JSON_stringify Undefined = None"
| "JSON_stringify (Fun _) = None"
| "JSON_stringify Null = Some ''null''"
| "JSON_stringify (Bool b) = Some (if b then ''true'' else ''false'')"
| "JSON_stringify (Num n) = Some (number_to_string n)"
| "JSON_stringify (Str s) = Some (quote s)"
| "JSON_stringify (Arr xs) =
     Some (''['' @ commas (map (\<lambda>x. case JSON_stringify x of None \<Rightarrow> ''null'' | Some t \<Rightarrow> t) xs) @ '']'')"
| "JSON_stringify (Obj kvs) =
     Some (''{'' @ commas (concat (map (\<lambda>kv. case JSON_stringify (snd kv) of
                                                 None \<Rightarrow> []
                                               | Some t \<Rightarrow> [quote (fst kv) @ '':'' @ t]) kvs)) @ ''}'')"

section \<open>MD5 and base64\<close>

text \<open>
  The \<^verbatim>\<open>crypto\<close> module's \<^verbatim>\<open>createHash('md5')\<close>, \<^verbatim>\<open>update\<close> and \<^verbatim>\<open>digest('base64')\<close>:
  MD5 as RFC 1321 defines it, over the bytes of the text, and the base64 alphabet of
  RFC 4648 with padding.
\<close>

type_synonym byte = "8 word"
type_synonym u32 = "32 word"

definition md5_s :: "nat list" where
  "md5_s = [7, 12, 17, 22, 7, 12, 17, 22, 7, 12, 17, 22, 7, 12, 17, 22,
            5, 9, 14, 20, 5, 9, 14, 20, 5, 9, 14, 20, 5, 9, 14, 20,
            4, 11, 16, 23, 4, 11, 16, 23, 4, 11, 16, 23, 4, 11, 16, 23,
            6, 10, 15, 21, 6, 10, 15, 21, 6, 10, 15, 21, 6, 10, 15, 21]"

definition md5_K :: "u32 list" where
  "md5_K = [0xd76aa478, 0xe8c7b756, 0x242070db, 0xc1bdceee,
            0xf57c0faf, 0x4787c62a, 0xa8304613, 0xfd469501,
            0x698098d8, 0x8b44f7af, 0xffff5bb1, 0x895cd7be,
            0x6b901122, 0xfd987193, 0xa679438e, 0x49b40821,
            0xf61e2562, 0xc040b340, 0x265e5a51, 0xe9b6c7aa,
            0xd62f105d, 0x02441453, 0xd8a1e681, 0xe7d3fbc8,
            0x21e1cde6, 0xc33707d6, 0xf4d50d87, 0x455a14ed,
            0xa9e3e905, 0xfcefa3f8, 0x676f02d9, 0x8d2a4c8a,
            0xfffa3942, 0x8771f681, 0x6d9d6122, 0xfde5380c,
            0xa4beea44, 0x4bdecfa9, 0xf6bb4b60, 0xbebfbc70,
            0x289b7ec6, 0xeaa127fa, 0xd4ef3085, 0x04881d05,
            0xd9d4d039, 0xe6db99e5, 0x1fa27cf8, 0xc4ac5665,
            0xf4292244, 0x432aff97, 0xab9423a7, 0xfc93a039,
            0x655b59c3, 0x8f0ccc92, 0xffeff47d, 0x85845dd1,
            0x6fa87e4f, 0xfe2ce6e0, 0xa3014314, 0x4e0811a1,
            0xf7537e82, 0xbd3af235, 0x2ad7d2bb, 0xeb86d391]"

definition le_bytes32 :: "u32 \<Rightarrow> byte list" where
  "le_bytes32 w = [ucast w, ucast (drop_bit 8 w), ucast (drop_bit 16 w), ucast (drop_bit 24 w)]"

definition le_bytes64 :: "64 word \<Rightarrow> byte list" where
  "le_bytes64 w = map (\<lambda>i. ucast (drop_bit (8 * i) w)) [0..<8]"

definition le_word32 :: "byte list \<Rightarrow> u32" where
  "le_word32 bs = foldr (\<lambda>b acc. push_bit 8 acc OR ucast b) bs 0"

function chunks :: "nat \<Rightarrow> 'a list \<Rightarrow> 'a list list" where
  "chunks n xs = (if n = 0 \<or> xs = [] then [] else take n xs # chunks n (drop n xs))"
  by pat_completeness auto
termination
  by (relation "measure (\<lambda>(n, xs). length xs)") auto

declare chunks.simps [simp del]

definition md5_pad :: "byte list \<Rightarrow> byte list" where
  "md5_pad m =
     m @ [0x80] @ replicate ((119 - length m mod 64) mod 64) 0
       @ le_bytes64 (word_of_nat (8 * length m))"

type_synonym md5_state = "u32 \<times> u32 \<times> u32 \<times> u32"

definition md5_round :: "u32 list \<Rightarrow> md5_state \<Rightarrow> nat \<Rightarrow> md5_state" where
  "md5_round M st i =
     (case st of (A, B, C, D) \<Rightarrow>
        let (F, g) =
              (if i < 16 then ((B AND C) OR (NOT B AND D), i)
               else if i < 32 then ((D AND B) OR (NOT D AND C), (5 * i + 1) mod 16)
               else if i < 48 then (B XOR C XOR D, (3 * i + 5) mod 16)
               else (C XOR (B OR NOT D), (7 * i) mod 16));
            F' = F + A + md5_K ! i + M ! g
        in (D, B + word_rotl (md5_s ! i) F', B, C))"

definition md5_block :: "md5_state \<Rightarrow> byte list \<Rightarrow> md5_state" where
  "md5_block st block =
     (case st of (a0, b0, c0, d0) \<Rightarrow>
        case foldl (md5_round (map le_word32 (chunks 4 block))) st [0..<64] of
          (A, B, C, D) \<Rightarrow> (a0 + A, b0 + B, c0 + C, d0 + D))"

definition md5 :: "byte list \<Rightarrow> byte list" where
  "md5 m =
     (case foldl md5_block (0x67452301, 0xefcdab89, 0x98badcfe, 0x10325476)
             (chunks 64 (md5_pad m)) of
        (a, b, c, d) \<Rightarrow> le_bytes32 a @ le_bytes32 b @ le_bytes32 c @ le_bytes32 d)"

definition b64_char :: "nat \<Rightarrow> char" where
  "b64_char n =
     (''ABCDEFGHIJKLMNOPQRSTUVWXYZabcdefghijklmnopqrstuvwxyz0123456789+/'') ! (n mod 64)"

fun base64 :: "byte list \<Rightarrow> string" where
  "base64 [] = []"
| "base64 [a] =
     (let n = unat a in [b64_char (n div 4), b64_char ((n mod 4) * 16), CHR ''='', CHR ''=''])"
| "base64 [a, b] =
     (let n = unat a * 256 + unat b
      in [b64_char (n div 1024), b64_char (n div 16), b64_char ((n mod 16) * 4), CHR ''=''])"
| "base64 (a # b # c # rest) =
     (let n = unat a * 65536 + unat b * 256 + unat c
      in [b64_char (n div 262144), b64_char (n div 4096), b64_char (n div 64), b64_char n]
         @ base64 rest)"

definition bytes_of :: "string \<Rightarrow> byte list" where
  "bytes_of s = map (\<lambda>c. word_of_nat (of_char c)) s"

section \<open>The fingerprint\<close>

text \<open>
  \<^verbatim>\<open>hashQueryArgs\<close>: every element whose \<^verbatim>\<open>typeof\<close> is \<^verbatim>\<open>'function'\<close> is replaced by its
  \<^verbatim>\<open>toString()\<close>, the array is serialized with \<^verbatim>\<open>JSON.stringify\<close>, and the MD5 digest of
  the text is returned in base64. (\<^verbatim>\<open>JSON.stringify\<close> of an array is always a string; the
  \<open>None\<close> branch is never taken, see \<open>JSON_stringify_Arr\<close>.)
\<close>

definition toString :: "jsval \<Rightarrow> string" where
  "toString v = (case v of Fun src \<Rightarrow> src | _ \<Rightarrow> [])"

definition argsToHash :: "jsval list \<Rightarrow> jsval list" where
  "argsToHash argsArray =
     map (\<lambda>value. if typeof value = ''function'' then Str (toString value) else value) argsArray"

definition hashQueryArgs :: "jsval list \<Rightarrow> string" where
  "hashQueryArgs argsArray =
     (case JSON_stringify (Arr (argsToHash argsArray)) of
        Some text \<Rightarrow> base64 (md5 (bytes_of text))
      | None \<Rightarrow> [])"

section \<open>The collaborators\<close>

text \<open>
  The code talks to four collaborators: the database handle \<^verbatim>\<open>this.db\<close> (its \<^verbatim>\<open>collection\<close>
  resolves a name to a handle, synchronously), the cache collection (\<^verbatim>\<open>findOneAsync\<close>
  returns a promise, \<^verbatim>\<open>update\<close> takes a node-style callback), the collection the query
  runs on (\<^verbatim>\<open>aggregateAsync\<close> and \<^verbatim>\<open>mapReduceAsync\<close> return promises) and the caller's
  completion handler. A world gives the behaviour of each over a state \<open>'s\<close> of its own;
  the model threads that state and records every call in a trace.

  A promise is fulfilled or rejected. \<^verbatim>\<open>update\<close> answers with the first argument it gives
  its callback (\<^verbatim>\<open>null\<close> or \<^verbatim>\<open>undefined\<close> for success), and \<open>update_sync\<close> says whether it
  runs the callback before it returns (as the test suite's stub does) or later (as the
  driver does). Calling a function value returns (\<open>None\<close>) or throws (\<open>Some e\<close>).

  The collaborators keep their contracts: \<^verbatim>\<open>db.collection\<close> returns a handle for any
  name and does not throw, every promise settles, and \<^verbatim>\<open>update\<close> runs its callback once.
  An event of the trace is one call of a collaborator with its arguments: the handle comes
  first in \<open>FindOne\<close> and \<open>Update\<close>, and \<open>Callback\<close> is a call of \<^verbatim>\<open>params.callback\<close>.
\<close>

datatype outcome = Resolved jsval | Rejected jsval

datatype event =
    Collection jsval
  | FindOne jsval jsval
  | Aggregate "jsval list"
  | MapReduce "jsval list"
  | Update jsval jsval jsval jsval
  | Callback "jsval list"

record 's world =
  collection :: "jsval \<Rightarrow> jsval"
  findOneAsync :: "jsval \<Rightarrow> jsval \<Rightarrow> 's \<Rightarrow> outcome \<times> 's"
  aggregateAsync :: "jsval list \<Rightarrow> 's \<Rightarrow> outcome \<times> 's"
  mapReduceAsync :: "jsval list \<Rightarrow> 's \<Rightarrow> outcome \<times> 's"
  update :: "jsval \<Rightarrow> jsval \<Rightarrow> jsval \<Rightarrow> jsval \<Rightarrow> 's \<Rightarrow> jsval \<times> 's"
  update_sync :: bool
  call :: "jsval \<Rightarrow> jsval list \<Rightarrow> 's \<Rightarrow> jsval option \<times> 's"
  new_Date :: "'s \<Rightarrow> jsval"

text \<open>
  What one invocation did: the exception it threw to its caller before returning, if any,
  the calls it made in order (also those made later, when the promises settled), and the
  state of the world at the end.
\<close>

record 's run =
  thrown :: "jsval option"
  trace :: "event list"
  final :: 's

section \<open>The argument normalizer\<close>

record params =
  callback :: jsval
  cacheOptions :: jsval
  queryArgsArray :: "jsval list"

text \<open>
  \<^verbatim>\<open>parseCacheFuncParams\<close>: \<^verbatim>\<open>args.pop()\<close> takes the last argument (\<^verbatim>\<open>undefined\<close> when
  there is none), \<^verbatim>\<open>args[0]\<close> is then the cache options, a string standing for
  \<^verbatim>\<open>{ cacheCollectionName: args[0] }\<close>, and \<^verbatim>\<open>args.slice(1)\<close> the query arguments.
\<close>

definition parseCacheFuncParams :: "jsval list \<Rightarrow> params" where
  "parseCacheFuncParams functionArgs =
     (let popped = (if functionArgs = [] then Undefined else last functionArgs);
          args = butlast functionArgs
      in \<lparr> callback = popped,
           cacheOptions =
             (if typeof (index args 0) = ''string''
              then Obj [(''cacheCollectionName'', index args 0)]
              else index args 0),
           queryArgsArray = drop 1 args \<rparr>)"

section \<open>The orchestration\<close>

text \<open>
  \<^verbatim>\<open>params.callback(...)\<close>: calling a value that is not a function throws a TypeError and
  calls nothing.
\<close>

definition call_callback ::
  "'s world \<Rightarrow> jsval \<Rightarrow> jsval list \<Rightarrow> event list \<times> 's \<Rightarrow> jsval option \<times> event list \<times> 's" where
  "call_callback w cb args st =
     (case st of (tr, s) \<Rightarrow>
        if typeof cb = ''function''
        then (case call w cb args s of (r, s') \<Rightarrow> (r, tr @ [Callback args], s'))
        else (Some TypeError, tr, s))"

text \<open>
  \<^verbatim>\<open>.catch(params.callback)\<close> on a promise: when the promise is rejected the handler is
  called with the reason alone. What the handler throws rejects a promise that nobody
  holds, and a handler that is not a function is not registered at all.
\<close>

definition catch_callback ::
  "'s world \<Rightarrow> jsval \<Rightarrow> jsval option \<times> event list \<times> 's \<Rightarrow> event list \<times> 's" where
  "catch_callback w cb r =
     (case r of
        (None, st) \<Rightarrow> st
      | (Some reason, st) \<Rightarrow> snd (call_callback w cb [reason] st))"

text \<open>
  \<^verbatim>\<open>saveResultToCache\<close>: one \<^verbatim>\<open>update\<close> with the selector \<^verbatim>\<open>{ queryHash }\<close>, the document
  \<^verbatim>\<open>{ queryHash, cachedAt: new Date(), cachedResult }\<close> and \<^verbatim>\<open>{ upsert: true }\<close>. The
  callback runs with what \<^verbatim>\<open>update\<close> answers; what it throws reaches the caller of
  \<^verbatim>\<open>saveResultToCache\<close> only when \<^verbatim>\<open>update\<close> ran it before returning.
\<close>

definition saveResultToCache ::
  "'s world \<Rightarrow> jsval \<Rightarrow> string \<Rightarrow> jsval
     \<Rightarrow> (jsval \<Rightarrow> event list \<times> 's \<Rightarrow> jsval option \<times> event list \<times> 's)
     \<Rightarrow> event list \<times> 's \<Rightarrow> jsval option \<times> event list \<times> 's" where
  "saveResultToCache w cacheCollection queryHash resultToCache cb st =
     (case st of (tr, s) \<Rightarrow>
        let selector = Obj [(''queryHash'', Str queryHash)];
            doc = Obj [(''queryHash'', Str queryHash),
                       (''cachedAt'', new_Date w s),
                       (''cachedResult'', resultToCache)];
            options = Obj [(''upsert'', Bool True)]
        in (case update w cacheCollection selector doc options s of
              (err, s') \<Rightarrow>
                (case cb err (tr @ [Update cacheCollection selector doc options], s') of
                   (r, st') \<Rightarrow> (if update_sync w then r else None, st'))))"

text \<open>
  The body of the first \<^verbatim>\<open>.then\<close> of \<^verbatim>\<open>cachedAggregate\<close>, run with the cache entry the
  lookup was fulfilled with. Its result is what the body itself throws; the inner promise
  chain is not returned, so its own \<^verbatim>\<open>.catch(params.callback)\<close> is its only handler.
\<close>

definition aggregate_then ::
  "'s world \<Rightarrow> params \<Rightarrow> jsval \<Rightarrow> string \<Rightarrow> jsval \<Rightarrow> event list \<times> 's
     \<Rightarrow> jsval option \<times> event list \<times> 's" where
  "aggregate_then w ps cacheCollection argsHash cacheEntry st =
     (if \<not> isEmpty cacheEntry \<and> \<not> truthy (get_prop (cacheOptions ps) ''forceUpdateCache'')
      then call_callback w (callback ps) [Null, get_prop cacheEntry ''cachedResult''] st
      else
        (case st of (tr, s) \<Rightarrow>
           (case aggregateAsync w (queryArgsArray ps) s of
              (Rejected e, s') \<Rightarrow>
                (None, catch_callback w (callback ps)
                         (Some e, tr @ [Aggregate (queryArgsArray ps)], s'))
            | (Resolved results, s') \<Rightarrow>
                (None, catch_callback w (callback ps)
                         (saveResultToCache w cacheCollection argsHash results
                            (\<lambda>err. call_callback w (callback ps) [err, results])
                            (tr @ [Aggregate (queryArgsArray ps)], s'))))))"

text \<open>
  \<^verbatim>\<open>cachedAggregate\<close>. Reading \<^verbatim>\<open>params.cacheOptions.cacheCollectionName\<close> throws when the
  cache options are \<^verbatim>\<open>undefined\<close> or \<^verbatim>\<open>null\<close>, before anything is called.
\<close>

definition cachedAggregate :: "'s world \<Rightarrow> jsval list \<Rightarrow> 's \<Rightarrow> 's run" where
  "cachedAggregate w arguments s =
     (let ps = parseCacheFuncParams arguments;
          argsHash = hashQueryArgs (queryArgsArray ps)
      in if nullish (cacheOptions ps) then \<lparr> thrown = Some TypeError, trace = [], final = s \<rparr>
         else
           let name = js_or (get_prop (cacheOptions ps) ''cacheCollectionName'') (Str ''queryCache'');
               cacheCollection = collection w name;
               selector = Obj [(''queryHash'', Str argsHash)];
               st = [Collection name, FindOne cacheCollection selector];
               done =
                 (case findOneAsync w cacheCollection selector s of
                    (Rejected e, s') \<Rightarrow> catch_callback w (callback ps) (Some e, st, s')
                  | (Resolved cacheEntry, s') \<Rightarrow>
                      catch_callback w (callback ps)
                        (aggregate_then w ps cacheCollection argsHash cacheEntry (st, s')))
           in \<lparr> thrown = None, trace = fst done, final = snd done \<rparr>)"

text \<open>
  \<^verbatim>\<open>usesInlineOutput\<close>:
  \<^verbatim>\<open>queryArgsArray[2] && queryArgsArray[2].out && queryArgsArray[2].out.inline || false\<close>.
\<close>

definition usesInlineOutput :: "jsval list \<Rightarrow> jsval" where
  "usesInlineOutput q =
     js_or (js_and (js_and (index q 2) (get_prop (index q 2) ''out''))
                   (get_prop (get_prop (index q 2) ''out'') ''inline''))
           (Bool False)"

definition mapReduce_then ::
  "'s world \<Rightarrow> params \<Rightarrow> jsval \<Rightarrow> string \<Rightarrow> jsval \<Rightarrow> event list \<times> 's
     \<Rightarrow> jsval option \<times> event list \<times> 's" where
  "mapReduce_then w ps cacheCollection argsHash cacheEntry st =
     (if \<not> isEmpty cacheEntry \<and> \<not> truthy (get_prop (cacheOptions ps) ''forceUpdateCache'')
      then
        (if truthy (usesInlineOutput (queryArgsArray ps))
         then call_callback w (callback ps) [Null, get_prop cacheEntry ''cachedResult''] st
         else call_callback w (callback ps)
                [Null, collection w (get_prop cacheEntry ''cachedResult'')]
                (fst st @ [Collection (get_prop cacheEntry ''cachedResult'')], snd st))
      else
        (case st of (tr, s) \<Rightarrow>
           (case mapReduceAsync w (queryArgsArray ps) s of
              (Rejected e, s') \<Rightarrow>
                (None, catch_callback w (callback ps)
                         (Some e, tr @ [MapReduce (queryArgsArray ps)], s'))
            | (Resolved result, s') \<Rightarrow>
                (let resultToCache =
                       (if truthy (usesInlineOutput (queryArgsArray ps)) then result
                        else js_and result (get_prop result ''collectionName''))
                 in (None, catch_callback w (callback ps)
                             (saveResultToCache w cacheCollection argsHash resultToCache
                                (\<lambda>err. call_callback w (callback ps) [err, result])
                                (tr @ [MapReduce (queryArgsArray ps)], s')))))))"

definition cachedMapReduce :: "'s world \<Rightarrow> jsval list \<Rightarrow> 's \<Rightarrow> 's run" where
  "cachedMapReduce w arguments s =
     (let ps = parseCacheFuncParams arguments;
          argsHash = hashQueryArgs (queryArgsArray ps)
      in if nullish (cacheOptions ps) then \<lparr> thrown = Some TypeError, trace = [], final = s \<rparr>
         else
           let name = js_or (get_prop (cacheOptions ps) ''cacheCollectionName'') (Str ''queryCache'');
               cacheCollection = collection w name;
               selector = Obj [(''queryHash'', Str argsHash)];
               st = [Collection name, FindOne cacheCollection selector];
               done =
                 (case findOneAsync w cacheCollection selector s of
                    (Rejected e, s') \<Rightarrow> catch_callback w (callback ps) (Some e, st, s')
                  | (Resolved cacheEntry, s') \<Rightarrow>
                      catch_callback w (callback ps)
                        (mapReduce_then w ps cacheCollection argsHash cacheEntry (st, s')))
           in \<lparr> thrown = None, trace = fst done, final = snd done \<rparr>)"

section \<open>Reading a trace\<close>

fun is_execution :: "event \<Rightarrow> bool" where
  "is_execution (Aggregate _) = True"
| "is_execution (MapReduce _) = True"
| "is_execution _ = False"

fun is_write :: "event \<Rightarrow> bool" where
  "is_write (Update _ _ _ _) = True"
| "is_write _ = False"

fun is_callback :: "event \<Rightarrow> bool" where
  "is_callback (Callback _) = True"
| "is_callback _ = False"

definition executions :: "event list \<Rightarrow> event list" where
  "executions tr = filter is_execution tr"

definition writes :: "event list \<Rightarrow> event list" where
  "writes tr = filter is_write tr"

definition callbacks :: "event list \<Rightarrow> event list" where
  "callbacks tr = filter is_callback tr"

text \<open>
  A write that is an upsert on the collection \<open>h\<close> whose selector is
  \<^verbatim>\<open>{ queryHash: F }\<close> and whose document carries the same \<^verbatim>\<open>queryHash\<close>.
\<close>

fun upsert_by_queryHash :: "jsval \<Rightarrow> string \<Rightarrow> event \<Rightarrow> bool" where
  "upsert_by_queryHash h F (Update h' selector doc options) =
     (h' = h \<and> selector = Obj [(''queryHash'', Str F)] \<and> get_prop doc ''queryHash'' = Str F
      \<and> truthy (get_prop options ''upsert''))"
| "upsert_by_queryHash h F _ = False"

section \<open>The stubs of the test suite\<close>

text \<open>
  The collaborators as the test suite sets them up: \<^verbatim>\<open>findOneAsync\<close>, \<^verbatim>\<open>aggregateAsync\<close>
  and \<^verbatim>\<open>mapReduceAsync\<close> are stubs that settle with a fixed outcome, \<^verbatim>\<open>update\<close> is a stub
  that runs its callback at once (\<^verbatim>\<open>callsArg(3)\<close>; here with a chosen first argument),
  and \<^verbatim>\<open>db.collection\<close> returns a handle for any name. The handler throws what \<open>throws\<close>
  says.
\<close>

definition stub_world ::
  "outcome \<Rightarrow> outcome \<Rightarrow> jsval \<Rightarrow> (jsval list \<Rightarrow> jsval option) \<Rightarrow> unit world" where
  "stub_world found executed answered throws =
     \<lparr> collection = (\<lambda>name. Obj [(''collectionName'', name)]),
       findOneAsync = (\<lambda>handle selector s. (found, s)),
       aggregateAsync = (\<lambda>args s. (executed, s)),
       mapReduceAsync = (\<lambda>args s. (executed, s)),
       update = (\<lambda>handle selector doc options s. (answered, s)),
       update_sync = True,
       call = (\<lambda>f args s. (throws args, s)),
       new_Date = (\<lambda>s. Num 0) \<rparr>"

text \<open>A handler that returns normally whatever it is called with.\<close>

definition returns :: "jsval list \<Rightarrow> jsval option" where
  "returns args = None"

section \<open>The storage layer\<close>

text \<open>
  Modelled from the spec: the storage layer behind a collection handle (the MongoDB
  driver, which is not part of the repository). A collection is the list of its documents.
  \<^verbatim>\<open>findOne(selector)\<close> returns the first document whose fields equal the selector's, or
  \<^verbatim>\<open>null\<close>; \<^verbatim>\<open>update(selector, document, { upsert })\<close> replaces the first such document by
  the given one, and with \<^verbatim>\<open>upsert\<close> inserts it when there is none. Either may fail with
  a storage error and then changes nothing. The query executor reads the source
  collection and leaves the stored collections as they are.
\<close>

type_synonym store = "jsval \<Rightarrow> jsval list"

record env =
  lookup_error :: "jsval option"
  aggregate_result :: "jsval list \<Rightarrow> outcome"
  mapReduce_result :: "jsval list \<Rightarrow> outcome"
  write_error :: "jsval option"
  calls_back_sync :: bool
  handler_throws :: "jsval list \<Rightarrow> jsval option"
  clock :: jsval

definition matches :: "jsval \<Rightarrow> jsval \<Rightarrow> bool" where
  "matches selector doc =
     (case selector of
        Obj kvs \<Rightarrow> list_all (\<lambda>kv. get_prop doc (fst kv) = snd kv) kvs
      | _ \<Rightarrow> False)"

definition store_findOne :: "jsval list \<Rightarrow> jsval \<Rightarrow> jsval" where
  "store_findOne docs selector = (case find (matches selector) docs of Some d \<Rightarrow> d | None \<Rightarrow> Null)"

fun store_update :: "jsval list \<Rightarrow> jsval \<Rightarrow> jsval \<Rightarrow> bool \<Rightarrow> jsval list" where
  "store_update [] selector doc upsert = (if upsert then [doc] else [])"
| "store_update (d # ds) selector doc upsert =
     (if matches selector d then doc # ds else d # store_update ds selector doc upsert)"

definition mongo_world :: "env \<Rightarrow> store world" where
  "mongo_world env =
     \<lparr> collection = (\<lambda>name. Obj [(''collectionName'', name)]),
       findOneAsync = (\<lambda>handle selector s.
          ((case lookup_error env of
              Some e \<Rightarrow> Rejected e
            | None \<Rightarrow> Resolved (store_findOne (s handle) selector)), s)),
       aggregateAsync = (\<lambda>args s. (aggregate_result env args, s)),
       mapReduceAsync = (\<lambda>args s. (mapReduce_result env args, s)),
       update = (\<lambda>handle selector doc options s.
          (case write_error env of
             Some e \<Rightarrow> (e, s)
           | None \<Rightarrow>
               (Null, s(handle := store_update (s handle) selector doc
                                    (truthy (get_prop options ''upsert'')))))),
       update_sync = calls_back_sync env,
       call = (\<lambda>f args s. (handler_throws env args, s)),
       new_Date = (\<lambda>s. clock env) \<rparr>"

text \<open>
  A storage layer that works, queries that are fulfilled with the results of the test
  suite, and a handler that returns; and a database with no documents.
\<close>

definition test_env :: env where
  "test_env =
     \<lparr> lookup_error = None,
       aggregate_result = (\<lambda>args. Resolved (Obj [(''some'', Str ''result'')])),
       mapReduce_result = (\<lambda>args. Resolved (Obj [(''collectionName'', Str ''resultingWordCache'')])),
       write_error = None,
       calls_back_sync = False,
       handler_throws = returns,
       clock = Num 0 \<rparr>"

definition empty_store :: store where
  "empty_store handle = []"

text \<open>
  A database whose collections each hold one entry, cached earlier for the query arguments
  \<^verbatim>\<open>({})\<close> of the test suite.
\<close>

definition stale_store :: store where
  "stale_store handle =
     [Obj [(''queryHash'', Str (hashQueryArgs [Obj []])), (''cachedAt'', Num 0),
           (''cachedResult'', Str ''stale'')]]"

text \<open>The invariant of a cache collection: no two entries share a \<^verbatim>\<open>queryHash\<close>.\<close>

definition queryHashes :: "jsval list \<Rightarrow> jsval list" where
  "queryHashes docs = map (\<lambda>d. get_prop d ''queryHash'') docs"

definition unique_hashes :: "jsval list \<Rightarrow> bool" where
  "unique_hashes docs = distinct (queryHashes docs)"

section \<open>The fingerprint is a fixed-length function of the arguments\<close>



lemma JSON_stringify_Arr: "\<exists>text. JSON_stringify (Arr xs) = Some text"
  by simp




section \<open>One invocation, path by path\<close>

text \<open>
  Each lemma follows one path through \<^verbatim>\<open>cachedAggregate\<close> or \<^verbatim>\<open>cachedMapReduce\<close>, given
  what each collaborator answers on that path, and gives the whole run: the trace and the
  final state. \<open>ps\<close> is the code's \<^verbatim>\<open>params\<close>, \<open>name\<close> the argument of
  \<^verbatim>\<open>db.collection\<close>, \<open>h\<close> the cache collection and \<open>sel\<close> the selector
  \<^verbatim>\<open>{ queryHash: argsHash }\<close>.
\<close>

lemmas orchestration_defs =
  cachedAggregate_def cachedMapReduce_def aggregate_then_def mapReduce_then_def
  saveResultToCache_def catch_callback_def call_callback_def Let_def

lemma cachedAggregate_throws:
  "nullish (cacheOptions (parseCacheFuncParams arguments)) \<Longrightarrow>
   cachedAggregate w arguments s = \<lparr> thrown = Some TypeError, trace = [], final = s \<rparr>"
  by (simp add: cachedAggregate_def Let_def)

lemma cachedAggregate_lookup_rejected:
  fixes w :: "'s world" and arguments :: "jsval list"
  defines "ps \<equiv> parseCacheFuncParams arguments"
  defines "name \<equiv> js_or (get_prop (cacheOptions ps) ''cacheCollectionName'') (Str ''queryCache'')"
  defines "h \<equiv> collection w name"
  defines "sel \<equiv> Obj [(''queryHash'', Str (hashQueryArgs (queryArgsArray ps)))]"
  assumes "\<not> nullish (cacheOptions ps)"
      and "findOneAsync w h sel s = (Rejected e, s1)"
      and "typeof (callback ps) = ''function''"
  shows "cachedAggregate w arguments s =
           \<lparr> thrown = None, trace = [Collection name, FindOne h sel, Callback [e]],
             final = snd (call w (callback ps) [e] s1) \<rparr>"
  using assms by (simp add: orchestration_defs split: prod.splits)

lemma cachedAggregate_hit:
  fixes w :: "'s world" and arguments :: "jsval list"
  defines "ps \<equiv> parseCacheFuncParams arguments"
  defines "name \<equiv> js_or (get_prop (cacheOptions ps) ''cacheCollectionName'') (Str ''queryCache'')"
  defines "h \<equiv> collection w name"
  defines "sel \<equiv> Obj [(''queryHash'', Str (hashQueryArgs (queryArgsArray ps)))]"
  assumes "\<not> nullish (cacheOptions ps)"
      and "findOneAsync w h sel s = (Resolved entry, s1)"
      and "\<not> isEmpty entry" and "\<not> truthy (get_prop (cacheOptions ps) ''forceUpdateCache'')"
      and "typeof (callback ps) = ''function''"
      and "call w (callback ps) [Null, get_prop entry ''cachedResult''] s1 = (r, s2)"
  shows "cachedAggregate w arguments s =
           \<lparr> thrown = None,
             trace = [Collection name, FindOne h sel, Callback [Null, get_prop entry ''cachedResult'']]
                     @ (case r of None \<Rightarrow> [] | Some x \<Rightarrow> [Callback [x]]),
             final = (case r of None \<Rightarrow> s2 | Some x \<Rightarrow> snd (call w (callback ps) [x] s2)) \<rparr>"
  using assms by (simp add: orchestration_defs split: prod.splits option.splits)

lemma cachedAggregate_execution_rejected:
  fixes w :: "'s world" and arguments :: "jsval list"
  defines "ps \<equiv> parseCacheFuncParams arguments"
  defines "name \<equiv> js_or (get_prop (cacheOptions ps) ''cacheCollectionName'') (Str ''queryCache'')"
  defines "h \<equiv> collection w name"
  defines "sel \<equiv> Obj [(''queryHash'', Str (hashQueryArgs (queryArgsArray ps)))]"
  assumes "\<not> nullish (cacheOptions ps)"
      and "findOneAsync w h sel s = (Resolved entry, s1)"
      and "isEmpty entry \<or> truthy (get_prop (cacheOptions ps) ''forceUpdateCache'')"
      and "aggregateAsync w (queryArgsArray ps) s1 = (Rejected e, s2)"
      and "typeof (callback ps) = ''function''"
  shows "cachedAggregate w arguments s =
           \<lparr> thrown = None,
             trace = [Collection name, FindOne h sel, Aggregate (queryArgsArray ps), Callback [e]],
             final = snd (call w (callback ps) [e] s2) \<rparr>"
  using assms by (auto simp add: orchestration_defs split: prod.splits option.splits)

lemma cachedAggregate_miss:
  fixes w :: "'s world" and arguments :: "jsval list"
  defines "ps \<equiv> parseCacheFuncParams arguments"
  defines "name \<equiv> js_or (get_prop (cacheOptions ps) ''cacheCollectionName'') (Str ''queryCache'')"
  defines "h \<equiv> collection w name"
  defines "sel \<equiv> Obj [(''queryHash'', Str (hashQueryArgs (queryArgsArray ps)))]"
  assumes "\<not> nullish (cacheOptions ps)"
      and "findOneAsync w h sel s = (Resolved entry, s1)"
      and "isEmpty entry \<or> truthy (get_prop (cacheOptions ps) ''forceUpdateCache'')"
      and "aggregateAsync w (queryArgsArray ps) s1 = (Resolved results, s2)"
      and "doc = Obj [(''queryHash'', Str (hashQueryArgs (queryArgsArray ps))),
                      (''cachedAt'', new_Date w s2), (''cachedResult'', results)]"
      and "update w h sel doc (Obj [(''upsert'', Bool True)]) s2 = (err, s3)"
      and "typeof (callback ps) = ''function''"
      and "call w (callback ps) [err, results] s3 = (r, s4)"
  shows "cachedAggregate w arguments s =
           \<lparr> thrown = None,
             trace = [Collection name, FindOne h sel, Aggregate (queryArgsArray ps),
                      Update h sel doc (Obj [(''upsert'', Bool True)]), Callback [err, results]]
                     @ (case r of None \<Rightarrow> [] | Some x \<Rightarrow> if update_sync w then [Callback [x]] else []),
             final = (case r of None \<Rightarrow> s4
                      | Some x \<Rightarrow> if update_sync w then snd (call w (callback ps) [x] s4) else s4) \<rparr>"
  using assms by (auto simp add: orchestration_defs split: prod.splits option.splits)


lemma cachedMapReduce_throws:
  "nullish (cacheOptions (parseCacheFuncParams arguments)) \<Longrightarrow>
   cachedMapReduce w arguments s = \<lparr> thrown = Some TypeError, trace = [], final = s \<rparr>"
  by (simp add: cachedMapReduce_def Let_def)

lemma cachedMapReduce_lookup_rejected:
  fixes w :: "'s world" and arguments :: "jsval list"
  defines "ps \<equiv> parseCacheFuncParams arguments"
  defines "name \<equiv> js_or (get_prop (cacheOptions ps) ''cacheCollectionName'') (Str ''queryCache'')"
  defines "h \<equiv> collection w name"
  defines "sel \<equiv> Obj [(''queryHash'', Str (hashQueryArgs (queryArgsArray ps)))]"
  assumes "\<not> nullish (cacheOptions ps)"
      and "findOneAsync w h sel s = (Rejected e, s1)"
      and "typeof (callback ps) = ''function''"
  shows "cachedMapReduce w arguments s =
           \<lparr> thrown = None, trace = [Collection name, FindOne h sel, Callback [e]],
             final = snd (call w (callback ps) [e] s1) \<rparr>"
  using assms by (simp add: orchestration_defs split: prod.splits)

lemma cachedMapReduce_hit_inline:
  fixes w :: "'s world" and arguments :: "jsval list"
  defines "ps \<equiv> parseCacheFuncParams arguments"
  defines "name \<equiv> js_or (get_prop (cacheOptions ps) ''cacheCollectionName'') (Str ''queryCache'')"
  defines "h \<equiv> collection w name"
  defines "sel \<equiv> Obj [(''queryHash'', Str (hashQueryArgs (queryArgsArray ps)))]"
  assumes "\<not> nullish (cacheOptions ps)"
      and "findOneAsync w h sel s = (Resolved entry, s1)"
      and "\<not> isEmpty entry" and "\<not> truthy (get_prop (cacheOptions ps) ''forceUpdateCache'')"
      and "truthy (usesInlineOutput (queryArgsArray ps))"
      and "typeof (callback ps) = ''function''"
      and "call w (callback ps) [Null, get_prop entry ''cachedResult''] s1 = (r, s2)"
  shows "cachedMapReduce w arguments s =
           \<lparr> thrown = None,
             trace = [Collection name, FindOne h sel, Callback [Null, get_prop entry ''cachedResult'']]
                     @ (case r of None \<Rightarrow> [] | Some x \<Rightarrow> [Callback [x]]),
             final = (case r of None \<Rightarrow> s2 | Some x \<Rightarrow> snd (call w (callback ps) [x] s2)) \<rparr>"
  using assms by (simp add: orchestration_defs split: prod.splits option.splits)

lemma cachedMapReduce_hit_collection:
  fixes w :: "'s world" and arguments :: "jsval list"
  defines "ps \<equiv> parseCacheFuncParams arguments"
  defines "name \<equiv> js_or (get_prop (cacheOptions ps) ''cacheCollectionName'') (Str ''queryCache'')"
  defines "h \<equiv> collection w name"
  defines "sel \<equiv> Obj [(''queryHash'', Str (hashQueryArgs (queryArgsArray ps)))]"
  assumes "\<not> nullish (cacheOptions ps)"
      and "findOneAsync w h sel s = (Resolved entry, s1)"
      and "\<not> isEmpty entry" and "\<not> truthy (get_prop (cacheOptions ps) ''forceUpdateCache'')"
      and "\<not> truthy (usesInlineOutput (queryArgsArray ps))"
      and "typeof (callback ps) = ''function''"
      and "call w (callback ps) [Null, collection w (get_prop entry ''cachedResult'')] s1 = (r, s2)"
  shows "cachedMapReduce w arguments s =
           \<lparr> thrown = None,
             trace = [Collection name, FindOne h sel, Collection (get_prop entry ''cachedResult''),
                      Callback [Null, collection w (get_prop entry ''cachedResult'')]]
                     @ (case r of None \<Rightarrow> [] | Some x \<Rightarrow> [Callback [x]]),
             final = (case r of None \<Rightarrow> s2 | Some x \<Rightarrow> snd (call w (callback ps) [x] s2)) \<rparr>"
  using assms by (simp add: orchestration_defs split: prod.splits option.splits)

lemma cachedMapReduce_execution_rejected:
  fixes w :: "'s world" and arguments :: "jsval list"
  defines "ps \<equiv> parseCacheFuncParams arguments"
  defines "name \<equiv> js_or (get_prop (cacheOptions ps) ''cacheCollectionName'') (Str ''queryCache'')"
  defines "h \<equiv> collection w name"
  defines "sel \<equiv> Obj [(''queryHash'', Str (hashQueryArgs (queryArgsArray ps)))]"
  assumes "\<not> nullish (cacheOptions ps)"
      and "findOneAsync w h sel s = (Resolved entry, s1)"
      and "isEmpty entry \<or> truthy (get_prop (cacheOptions ps) ''forceUpdateCache'')"
      and "mapReduceAsync w (queryArgsArray ps) s1 = (Rejected e, s2)"
      and "typeof (callback ps) = ''function''"
  shows "cachedMapReduce w arguments s =
           \<lparr> thrown = None,
             trace = [Collection name, FindOne h sel, MapReduce (queryArgsArray ps), Callback [e]],
             final = snd (call w (callback ps) [e] s2) \<rparr>"
  using assms by (auto simp add: orchestration_defs split: prod.splits option.splits)

lemma cachedMapReduce_miss:
  fixes w :: "'s world" and arguments :: "jsval list"
  defines "ps \<equiv> parseCacheFuncParams arguments"
  defines "name \<equiv> js_or (get_prop (cacheOptions ps) ''cacheCollectionName'') (Str ''queryCache'')"
  defines "h \<equiv> collection w name"
  defines "sel \<equiv> Obj [(''queryHash'', Str (hashQueryArgs (queryArgsArray ps)))]"
  assumes "\<not> nullish (cacheOptions ps)"
      and "findOneAsync w h sel s = (Resolved entry, s1)"
      and "isEmpty entry \<or> truthy (get_prop (cacheOptions ps) ''forceUpdateCache'')"
      and "mapReduceAsync w (queryArgsArray ps) s1 = (Resolved result, s2)"
      and "resultToCache = (if truthy (usesInlineOutput (queryArgsArray ps)) then result
                            else js_and result (get_prop result ''collectionName''))"
      and "doc = Obj [(''queryHash'', Str (hashQueryArgs (queryArgsArray ps))),
                      (''cachedAt'', new_Date w s2), (''cachedResult'', resultToCache)]"
      and "update w h sel doc (Obj [(''upsert'', Bool True)]) s2 = (err, s3)"
      and "typeof (callback ps) = ''function''"
      and "call w (callback ps) [err, result] s3 = (r, s4)"
  shows "cachedMapReduce w arguments s =
           \<lparr> thrown = None,
             trace = [Collection name, FindOne h sel, MapReduce (queryArgsArray ps),
                      Update h sel doc (Obj [(''upsert'', Bool True)]), Callback [err, result]]
                     @ (case r of None \<Rightarrow> [] | Some x \<Rightarrow> if update_sync w then [Callback [x]] else []),
             final = (case r of None \<Rightarrow> s4
                      | Some x \<Rightarrow> if update_sync w then snd (call w (callback ps) [x] s4) else s4) \<rparr>"
  using assms by (auto simp add: orchestration_defs split: prod.splits option.splits)

section \<open>Cache hit\<close>

text \<open>
  C1. Take any invocation whose cache options can be read, whose handler is a function,
  whose lookup by the fingerprint of the query arguments is fulfilled with a non-empty
  entry, and whose \<^verbatim>\<open>forceUpdateCache\<close> is falsy. For \<^verbatim>\<open>cachedAggregate\<close>, and for
  \<^verbatim>\<open>cachedMapReduce\<close> when \<^verbatim>\<open>out.inline\<close> is truthy, the run resolves the cache collection,
  looks the fingerprint up and calls the handler with \<^verbatim>\<open>(null, entry.cachedResult)\<close>: no
  query is executed and nothing is written. (\<open>r\<close> is what the handler does with that call:
  if it throws, the trailing \<^verbatim>\<open>.catch(params.callback)\<close> calls it once more with what it
  threw.)
\<close>

theorem cache_hit_returns_stored_value:
  fixes w :: "'s world" and arguments :: "jsval list"
  defines "ps \<equiv> parseCacheFuncParams arguments"
  defines "name \<equiv> js_or (get_prop (cacheOptions ps) ''cacheCollectionName'') (Str ''queryCache'')"
  defines "h \<equiv> collection w name"
  defines "sel \<equiv> Obj [(''queryHash'', Str (hashQueryArgs (queryArgsArray ps)))]"
  assumes opts: "\<not> nullish (cacheOptions ps)"
      and found: "findOneAsync w h sel s = (Resolved entry, sf)"
      and entry: "\<not> isEmpty entry"
      and force: "\<not> truthy (get_prop (cacheOptions ps) ''forceUpdateCache'')"
      and cb: "typeof (callback ps) = ''function''"
      and called: "call w (callback ps) [Null, get_prop entry ''cachedResult''] sf = (r, sc)"
      and R: "R = cachedAggregate w arguments s
              \<or> truthy (usesInlineOutput (queryArgsArray ps)) \<and> R = cachedMapReduce w arguments s"
  shows "thrown R = None
       \<and> trace R = [Collection name, FindOne h sel, Callback [Null, get_prop entry ''cachedResult'']]
                   @ (case r of None \<Rightarrow> [] | Some x \<Rightarrow> [Callback [x]])
       \<and> executions (trace R) = []
       \<and> writes (trace R) = []"
proof -
  from R have "R = \<lparr> thrown = None,
             trace = [Collection name, FindOne h sel, Callback [Null, get_prop entry ''cachedResult'']]
                     @ (case r of None \<Rightarrow> [] | Some x \<Rightarrow> [Callback [x]]),
             final = (case r of None \<Rightarrow> sc | Some x \<Rightarrow> snd (call w (callback ps) [x] sc)) \<rparr>"
  proof
    assume "R = cachedAggregate w arguments s"
    with cachedAggregate_hit [of arguments w s entry sf r sc] opts found entry force cb called
    show ?thesis
      unfolding ps_def name_def h_def sel_def by simp
  next
    assume "truthy (usesInlineOutput (queryArgsArray ps)) \<and> R = cachedMapReduce w arguments s"
    with cachedMapReduce_hit_inline [of arguments w s entry sf r sc] opts found entry force cb called
    show ?thesis
      unfolding ps_def name_def h_def sel_def by simp
  qed
  then show ?thesis
    by (simp add: executions_def writes_def split: option.splits)
qed

text \<open>
  The hits of the test suite: a stubbed lookup that is fulfilled with
  \<^verbatim>\<open>{ cachedResult: _result }\<close>.
\<close>

theorem cache_hit_returns_stored_value_witness:
  "trace (cachedAggregate
            (stub_world (Resolved (Obj [(''cachedResult'', Obj [(''some'', Str ''result'')])]))
                        (Resolved Null) Undefined (\<lambda>args. None))
            [Str ''test'', Obj [], Fun ''callback''] ())
     = [Collection (Str ''test''),
        FindOne (Obj [(''collectionName'', Str ''test'')])
                (Obj [(''queryHash'', Str (hashQueryArgs [Obj []]))]),
        Callback [Null, Obj [(''some'', Str ''result'')]]]
   \<and> trace (cachedMapReduce
            (stub_world (Resolved (Obj [(''cachedResult'', Arr [Str ''some'', Str ''inline'', Str ''results''])]))
                        (Resolved Null) Undefined (\<lambda>args. None))
            [Str ''testCache'', Null, Null, Obj [(''out'', Obj [(''inline'', Num 1)])], Fun ''callback''] ())
     = [Collection (Str ''testCache''),
        FindOne (Obj [(''collectionName'', Str ''testCache'')])
                (Obj [(''queryHash'', Str (hashQueryArgs [Null, Null, Obj [(''out'', Obj [(''inline'', Num 1)])]]))]),
        Callback [Null, Arr [Str ''some'', Str ''inline'', Str ''results'']]]"
  using
    cache_hit_returns_stored_value
      [where w = "stub_world (Resolved (Obj [(''cachedResult'', Obj [(''some'', Str ''result'')])]))
                        (Resolved Null) Undefined (\<lambda>args. None)"
         and arguments = "[Str ''test'', Obj [], Fun ''callback'']" and s = "()" and sf = "()"
         and sc = "()" and r = None
         and entry = "Obj [(''cachedResult'', Obj [(''some'', Str ''result'')])]"
         and R = "cachedAggregate
            (stub_world (Resolved (Obj [(''cachedResult'', Obj [(''some'', Str ''result'')])]))
                        (Resolved Null) Undefined (\<lambda>args. None))
            [Str ''test'', Obj [], Fun ''callback''] ()"]
    cache_hit_returns_stored_value
      [where w = "stub_world (Resolved (Obj [(''cachedResult'', Arr [Str ''some'', Str ''inline'', Str ''results''])]))
                        (Resolved Null) Undefined (\<lambda>args. None)"
         and arguments = "[Str ''testCache'', Null, Null, Obj [(''out'', Obj [(''inline'', Num 1)])], Fun ''callback'']"
         and s = "()" and sf = "()" and sc = "()" and r = None
         and entry = "Obj [(''cachedResult'', Arr [Str ''some'', Str ''inline'', Str ''results''])]"
         and R = "cachedMapReduce
            (stub_world (Resolved (Obj [(''cachedResult'', Arr [Str ''some'', Str ''inline'', Str ''results''])]))
                        (Resolved Null) Undefined (\<lambda>args. None))
            [Str ''testCache'', Null, Null, Obj [(''out'', Obj [(''inline'', Num 1)])], Fun ''callback''] ()"]
  by (simp add: stub_world_def parseCacheFuncParams_def index_def nullish_def js_or_def js_and_def
                usesInlineOutput_def)

section \<open>Cache miss\<close>

text \<open>
  C2. Take any invocation whose cache options can be read, whose handler is a function,
  and whose lookup is fulfilled with an empty entry (\<^verbatim>\<open>null\<close>) or whose
  \<^verbatim>\<open>forceUpdateCache\<close> is truthy, and let the query be fulfilled with \<open>result\<close>. Then the
  executor is called exactly once, with the query arguments \<open>q\<close>: the arguments of the
  call between the cache options and the handler, in their order. After it exactly one
  \<^verbatim>\<open>update\<close> is made on the cache collection, with the selector
  \<^verbatim>\<open>{ queryHash }\<close> of the fingerprint, the document
  \<^verbatim>\<open>{ queryHash, cachedAt, cachedResult }\<close> and \<^verbatim>\<open>{ upsert: true }\<close>, where
  \<^verbatim>\<open>cachedResult\<close> is the result for \<^verbatim>\<open>cachedAggregate\<close> and for an inline
  \<^verbatim>\<open>cachedMapReduce\<close>, and the \<^verbatim>\<open>collectionName\<close> of the result for a \<^verbatim>\<open>cachedMapReduce\<close>
  that is not inline (its result being a handle, hence truthy). Then the handler is called
  with what \<^verbatim>\<open>update\<close> answered and the live result. (If the handler throws there and
  \<^verbatim>\<open>update\<close> had run its callback before returning, the inner \<^verbatim>\<open>.catch\<close> calls the
  handler once more with what it threw.)
\<close>

theorem cache_miss_writes_through:
  fixes w :: "'s world" and arguments :: "jsval list"
  defines "ps \<equiv> parseCacheFuncParams arguments"
  defines "name \<equiv> js_or (get_prop (cacheOptions ps) ''cacheCollectionName'') (Str ''queryCache'')"
  defines "h \<equiv> collection w name"
  defines "sel \<equiv> Obj [(''queryHash'', Str (hashQueryArgs (queryArgsArray ps)))]"
  defines "q \<equiv> queryArgsArray ps"
  assumes opts: "\<not> nullish (cacheOptions ps)"
      and found: "findOneAsync w h sel s = (Resolved entry, sf)"
      and miss: "isEmpty entry \<or> truthy (get_prop (cacheOptions ps) ''forceUpdateCache'')"
      and cb: "typeof (callback ps) = ''function''"
      and executed:
        "R = cachedAggregate w arguments s \<and> execution = Aggregate q
           \<and> aggregateAsync w q sf = (Resolved result, sx) \<and> stored = result
         \<or> R = cachedMapReduce w arguments s \<and> execution = MapReduce q
           \<and> mapReduceAsync w q sf = (Resolved result, sx)
           \<and> truthy (usesInlineOutput q) \<and> stored = result
         \<or> R = cachedMapReduce w arguments s \<and> execution = MapReduce q
           \<and> mapReduceAsync w q sf = (Resolved result, sx)
           \<and> \<not> truthy (usesInlineOutput q) \<and> truthy result
           \<and> stored = get_prop result ''collectionName''"
      and doc: "doc = Obj [(''queryHash'', Str (hashQueryArgs q)),
                           (''cachedAt'', new_Date w sx), (''cachedResult'', stored)]"
      and written: "update w h sel doc (Obj [(''upsert'', Bool True)]) sx = (err, su)"
      and called: "call w (callback ps) [err, result] su = (r, sc)"
  shows "thrown R = None
       \<and> q = drop 1 (butlast arguments)
       \<and> trace R = [Collection name, FindOne h sel, execution,
                    Update h sel doc (Obj [(''upsert'', Bool True)]), Callback [err, result]]
                   @ (case r of None \<Rightarrow> []
                      | Some x \<Rightarrow> if update_sync w then [Callback [x]] else [])
       \<and> executions (trace R) = [execution]
       \<and> writes (trace R) = [Update h sel doc (Obj [(''upsert'', Bool True)])]"
proof -
  have q: "q = drop 1 (butlast arguments)"
    by (simp add: q_def ps_def parseCacheFuncParams_def Let_def)
  from executed
  have "R = \<lparr> thrown = None,
             trace = [Collection name, FindOne h sel, execution,
                      Update h sel doc (Obj [(''upsert'', Bool True)]), Callback [err, result]]
                     @ (case r of None \<Rightarrow> []
                        | Some x \<Rightarrow> if update_sync w then [Callback [x]] else []),
             final = (case r of None \<Rightarrow> sc
                      | Some x \<Rightarrow> if update_sync w then snd (call w (callback ps) [x] sc) else sc) \<rparr>
        \<and> (execution = Aggregate q \<or> execution = MapReduce q)"
  proof (elim disjE conjE)
    assume "R = cachedAggregate w arguments s" "execution = Aggregate q"
      "aggregateAsync w q sf = (Resolved result, sx)" "stored = result"
    with cachedAggregate_miss [of arguments w s entry sf result sx doc err su r sc]
      opts found miss cb doc written called
    show ?thesis
      unfolding ps_def name_def h_def sel_def q_def by simp
  next
    assume "R = cachedMapReduce w arguments s" "execution = MapReduce q"
      "mapReduceAsync w q sf = (Resolved result, sx)" "truthy (usesInlineOutput q)" "stored = result"
    with cachedMapReduce_miss [of arguments w s entry sf result sx stored doc err su r sc]
      opts found miss cb doc written called
    show ?thesis
      unfolding ps_def name_def h_def sel_def q_def by simp
  next
    assume "R = cachedMapReduce w arguments s" "execution = MapReduce q"
      "mapReduceAsync w q sf = (Resolved result, sx)" "\<not> truthy (usesInlineOutput q)"
      "truthy result" "stored = get_prop result ''collectionName''"
    with cachedMapReduce_miss [of arguments w s entry sf result sx stored doc err su r sc]
      opts found miss cb doc written called
    show ?thesis
      unfolding ps_def name_def h_def sel_def q_def by (simp add: js_and_def)
  qed
  with q show ?thesis
    by (auto simp add: executions_def writes_def split: option.splits)
qed


text \<open>
  The misses of the test suite: the lookup is fulfilled with \<^verbatim>\<open>null\<close>, the query with
  \<^verbatim>\<open>{ some: 'result' }\<close>, with the collection \<^verbatim>\<open>resultingWordCache\<close>, or with the inline
  array.
\<close>

theorem cache_miss_writes_through_witness:
  "trace (cachedAggregate
            (stub_world (Resolved Null) (Resolved (Obj [(''some'', Str ''result'')])) Undefined (\<lambda>args. None))
            [Str ''test'', Obj [], Fun ''callback''] ())
     = [Collection (Str ''test''),
        FindOne (Obj [(''collectionName'', Str ''test'')])
                (Obj [(''queryHash'', Str (hashQueryArgs [Obj []]))]),
        Aggregate [Obj []],
        Update (Obj [(''collectionName'', Str ''test'')])
               (Obj [(''queryHash'', Str (hashQueryArgs [Obj []]))])
               (Obj [(''queryHash'', Str (hashQueryArgs [Obj []])), (''cachedAt'', Num 0),
                     (''cachedResult'', Obj [(''some'', Str ''result'')])])
               (Obj [(''upsert'', Bool True)]),
        Callback [Undefined, Obj [(''some'', Str ''result'')]]]
   \<and> writes (trace (cachedMapReduce
            (stub_world (Resolved Null) (Resolved (Obj [(''collectionName'', Str ''resultingWordCache'')]))
                        Undefined (\<lambda>args. None))
            [Str ''testCache'', Obj [], Fun ''callback''] ()))
     = [Update (Obj [(''collectionName'', Str ''testCache'')])
               (Obj [(''queryHash'', Str (hashQueryArgs [Obj []]))])
               (Obj [(''queryHash'', Str (hashQueryArgs [Obj []])), (''cachedAt'', Num 0),
                     (''cachedResult'', Str ''resultingWordCache'')])
               (Obj [(''upsert'', Bool True)])]
   \<and> writes (trace (cachedMapReduce
            (stub_world (Resolved Null) (Resolved (Arr [Str ''some'', Str ''inline'', Str ''results'']))
                        Undefined (\<lambda>args. None))
            [Str ''testCache'', Null, Null, Obj [(''out'', Obj [(''inline'', Num 1)])], Fun ''callback''] ()))
     = [Update (Obj [(''collectionName'', Str ''testCache'')])
               (Obj [(''queryHash'', Str (hashQueryArgs [Null, Null, Obj [(''out'', Obj [(''inline'', Num 1)])]]))])
               (Obj [(''queryHash'', Str (hashQueryArgs [Null, Null, Obj [(''out'', Obj [(''inline'', Num 1)])]])),
                     (''cachedAt'', Num 0),
                     (''cachedResult'', Arr [Str ''some'', Str ''inline'', Str ''results''])])
               (Obj [(''upsert'', Bool True)])]"
  using
    cache_miss_writes_through
      [where w = "stub_world (Resolved Null) (Resolved (Obj [(''some'', Str ''result'')])) Undefined (\<lambda>args. None)"
         and arguments = "[Str ''test'', Obj [], Fun ''callback'']"
         and s = "()" and sf = "()" and sx = "()" and su = "()" and sc = "()"
         and entry = Null and result = "Obj [(''some'', Str ''result'')]"
         and stored = "Obj [(''some'', Str ''result'')]"
         and execution = "Aggregate [Obj []]" and err = Undefined and r = None
         and doc = "Obj [(''queryHash'', Str (hashQueryArgs [Obj []])), (''cachedAt'', Num 0),
                         (''cachedResult'', Obj [(''some'', Str ''result'')])]"
         and R = "cachedAggregate
            (stub_world (Resolved Null) (Resolved (Obj [(''some'', Str ''result'')])) Undefined (\<lambda>args. None))
            [Str ''test'', Obj [], Fun ''callback''] ()"]
    cache_miss_writes_through
      [where w = "stub_world (Resolved Null) (Resolved (Obj [(''collectionName'', Str ''resultingWordCache'')]))
                        Undefined (\<lambda>args. None)"
         and arguments = "[Str ''testCache'', Obj [], Fun ''callback'']"
         and s = "()" and sf = "()" and sx = "()" and su = "()" and sc = "()"
         and entry = Null and result = "Obj [(''collectionName'', Str ''resultingWordCache'')]"
         and stored = "Str ''resultingWordCache''"
         and execution = "MapReduce [Obj []]" and err = Undefined and r = None
         and doc = "Obj [(''queryHash'', Str (hashQueryArgs [Obj []])), (''cachedAt'', Num 0),
                         (''cachedResult'', Str ''resultingWordCache'')]"
         and R = "cachedMapReduce
            (stub_world (Resolved Null) (Resolved (Obj [(''collectionName'', Str ''resultingWordCache'')]))
                        Undefined (\<lambda>args. None))
            [Str ''testCache'', Obj [], Fun ''callback''] ()"]
    cache_miss_writes_through
      [where w = "stub_world (Resolved Null) (Resolved (Arr [Str ''some'', Str ''inline'', Str ''results'']))
                        Undefined (\<lambda>args. None)"
         and arguments = "[Str ''testCache'', Null, Null, Obj [(''out'', Obj [(''inline'', Num 1)])], Fun ''callback'']"
         and s = "()" and sf = "()" and sx = "()" and su = "()" and sc = "()"
         and entry = Null and result = "Arr [Str ''some'', Str ''inline'', Str ''results'']"
         and stored = "Arr [Str ''some'', Str ''inline'', Str ''results'']"
         and execution = "MapReduce [Null, Null, Obj [(''out'', Obj [(''inline'', Num 1)])]]"
         and err = Undefined and r = None
         and doc = "Obj [(''queryHash'', Str (hashQueryArgs [Null, Null, Obj [(''out'', Obj [(''inline'', Num 1)])]])),
                         (''cachedAt'', Num 0),
                         (''cachedResult'', Arr [Str ''some'', Str ''inline'', Str ''results''])]"
         and R = "cachedMapReduce
            (stub_world (Resolved Null) (Resolved (Arr [Str ''some'', Str ''inline'', Str ''results'']))
                        Undefined (\<lambda>args. None))
            [Str ''testCache'', Null, Null, Obj [(''out'', Obj [(''inline'', Num 1)])], Fun ''callback''] ()"]
  by (simp add: stub_world_def parseCacheFuncParams_def index_def nullish_def js_or_def js_and_def
                usesInlineOutput_def writes_def executions_def)

section \<open>Failures\<close>

text \<open>
  C6. Take any invocation whose cache options can be read and whose handler is a function.
  \<^item> When the lookup is rejected with \<open>e\<close>, the handler is called with \<open>e\<close> and that is
    all: no query is executed and nothing is written.
  \<^item> When the lookup misses (or the update is forced) and the query is rejected with \<open>e\<close>,
    the handler is called with \<open>e\<close> after the one execution, and nothing is written.
  \<^item> When the query is fulfilled, there is one \<^verbatim>\<open>update\<close>, and the handler is called with
    what it answered (the write error, when the write failed) and the result.
  In each case the trace is given whole: one lookup, at most one execution, at most one
  update, nothing retried, and one call of the handler for the failure. The first two
  hold whatever the handler does. In the third, \<open>r\<close> is what the handler does with its
  call: only if it throws there, and \<^verbatim>\<open>update\<close> had run its callback before returning,
  is the handler called again, with its own exception, by the inner \<^verbatim>\<open>.catch\<close>.
\<close>

theorem failures_reported_once:
  fixes w :: "'s world" and arguments :: "jsval list"
  defines "ps \<equiv> parseCacheFuncParams arguments"
  defines "name \<equiv> js_or (get_prop (cacheOptions ps) ''cacheCollectionName'') (Str ''queryCache'')"
  defines "h \<equiv> collection w name"
  defines "sel \<equiv> Obj [(''queryHash'', Str (hashQueryArgs (queryArgsArray ps)))]"
  defines "q \<equiv> queryArgsArray ps"
  assumes opts: "\<not> nullish (cacheOptions ps)"
      and cb: "typeof (callback ps) = ''function''"
  shows "(findOneAsync w h sel s = (Rejected e, sf)
          \<and> (R = cachedAggregate w arguments s \<or> R = cachedMapReduce w arguments s)
          \<longrightarrow> trace R = [Collection name, FindOne h sel, Callback [e]]
              \<and> executions (trace R) = [] \<and> writes (trace R) = [])
       \<and> (findOneAsync w h sel s = (Resolved entry, sf)
          \<and> (isEmpty entry \<or> truthy (get_prop (cacheOptions ps) ''forceUpdateCache''))
          \<and> (R = cachedAggregate w arguments s \<and> execution = Aggregate q
                \<and> aggregateAsync w q sf = (Rejected e, sx)
              \<or> R = cachedMapReduce w arguments s \<and> execution = MapReduce q
                \<and> mapReduceAsync w q sf = (Rejected e, sx))
          \<longrightarrow> trace R = [Collection name, FindOne h sel, execution, Callback [e]]
              \<and> writes (trace R) = [])
       \<and> (findOneAsync w h sel s = (Resolved entry, sf)
          \<and> (isEmpty entry \<or> truthy (get_prop (cacheOptions ps) ''forceUpdateCache''))
          \<and> (R = cachedAggregate w arguments s \<and> execution = Aggregate q
                \<and> aggregateAsync w q sf = (Resolved result, sx) \<and> stored = result
              \<or> R = cachedMapReduce w arguments s \<and> execution = MapReduce q
                \<and> mapReduceAsync w q sf = (Resolved result, sx)
                \<and> stored = (if truthy (usesInlineOutput q) then result
                              else js_and result (get_prop result ''collectionName'')))
          \<and> doc = Obj [(''queryHash'', Str (hashQueryArgs q)),
                        (''cachedAt'', new_Date w sx), (''cachedResult'', stored)]
          \<and> update w h sel doc (Obj [(''upsert'', Bool True)]) sx = (err, su)
          \<and> call w (callback ps) [err, result] su = (r, sc)
          \<longrightarrow> trace R = [Collection name, FindOne h sel, execution,
                           Update h sel doc (Obj [(''upsert'', Bool True)]), Callback [err, result]]
                          @ (case r of None \<Rightarrow> []
                             | Some x \<Rightarrow> if update_sync w then [Callback [x]] else []))"
proof -
  have c1:
    "(findOneAsync w h sel s = (Rejected e, sf)
          \<and> (R = cachedAggregate w arguments s \<or> R = cachedMapReduce w arguments s)
          \<longrightarrow> trace R = [Collection name, FindOne h sel, Callback [e]]
              \<and> executions (trace R) = [] \<and> writes (trace R) = [])"
  proof (intro impI, elim conjE)
    assume "findOneAsync w h sel s = (Rejected e, sf)"
      and "R = cachedAggregate w arguments s \<or> R = cachedMapReduce w arguments s"
    with cachedAggregate_lookup_rejected [of arguments w s e sf]
      cachedMapReduce_lookup_rejected [of arguments w s e sf] opts cb
    have "R = \<lparr> thrown = None, trace = [Collection name, FindOne h sel, Callback [e]],
                final = snd (call w (callback ps) [e] sf) \<rparr>"
      unfolding ps_def name_def h_def sel_def by auto
    then show "trace R = [Collection name, FindOne h sel, Callback [e]]
                \<and> executions (trace R) = [] \<and> writes (trace R) = []"
      by (simp add: executions_def writes_def)
  qed
  have c2:
    "(findOneAsync w h sel s = (Resolved entry, sf)
          \<and> (isEmpty entry \<or> truthy (get_prop (cacheOptions ps) ''forceUpdateCache''))
          \<and> (R = cachedAggregate w arguments s \<and> execution = Aggregate q
                \<and> aggregateAsync w q sf = (Rejected e, sx)
              \<or> R = cachedMapReduce w arguments s \<and> execution = MapReduce q
                \<and> mapReduceAsync w q sf = (Rejected e, sx))
          \<longrightarrow> trace R = [Collection name, FindOne h sel, execution, Callback [e]]
              \<and> writes (trace R) = [])"
  proof (intro impI, elim conjE)
    assume found: "findOneAsync w h sel s = (Resolved entry, sf)"
      and miss: "isEmpty entry \<or> truthy (get_prop (cacheOptions ps) ''forceUpdateCache'')"
      and "R = cachedAggregate w arguments s \<and> execution = Aggregate q
                  \<and> aggregateAsync w q sf = (Rejected e, sx)
                \<or> R = cachedMapReduce w arguments s \<and> execution = MapReduce q
                  \<and> mapReduceAsync w q sf = (Rejected e, sx)"
    with cachedAggregate_execution_rejected [of arguments w s entry sf e sx]
      cachedMapReduce_execution_rejected [of arguments w s entry sf e sx] opts cb
    have "R = \<lparr> thrown = None, trace = [Collection name, FindOne h sel, execution, Callback [e]],
                final = snd (call w (callback ps) [e] sx) \<rparr>
          \<and> (execution = Aggregate q \<or> execution = MapReduce q)"
      unfolding ps_def name_def h_def sel_def q_def by auto
    then show "trace R = [Collection name, FindOne h sel, execution, Callback [e]]
                \<and> writes (trace R) = []"
      by (auto simp add: writes_def)
  qed
  have c3:
    "(findOneAsync w h sel s = (Resolved entry, sf)
          \<and> (isEmpty entry \<or> truthy (get_prop (cacheOptions ps) ''forceUpdateCache''))
          \<and> (R = cachedAggregate w arguments s \<and> execution = Aggregate q
                \<and> aggregateAsync w q sf = (Resolved result, sx) \<and> stored = result
              \<or> R = cachedMapReduce w arguments s \<and> execution = MapReduce q
                \<and> mapReduceAsync w q sf = (Resolved result, sx)
                \<and> stored = (if truthy (usesInlineOutput q) then result
                              else js_and result (get_prop result ''collectionName'')))
          \<and> doc = Obj [(''queryHash'', Str (hashQueryArgs q)),
                        (''cachedAt'', new_Date w sx), (''cachedResult'', stored)]
          \<and> update w h sel doc (Obj [(''upsert'', Bool True)]) sx = (err, su)
          \<and> call w (callback ps) [err, result] su = (r, sc)
          \<longrightarrow> trace R = [Collection name, FindOne h sel, execution,
                           Update h sel doc (Obj [(''upsert'', Bool True)]), Callback [err, result]]
                          @ (case r of None \<Rightarrow> []
                             | Some x \<Rightarrow> if update_sync w then [Callback [x]] else []))"
  proof (intro impI, elim conjE)
    assume found: "findOneAsync w h sel s = (Resolved entry, sf)"
      and miss: "isEmpty entry \<or> truthy (get_prop (cacheOptions ps) ''forceUpdateCache'')"
      and doc: "doc = Obj [(''queryHash'', Str (hashQueryArgs q)),
                          (''cachedAt'', new_Date w sx), (''cachedResult'', stored)]"
      and written: "update w h sel doc (Obj [(''upsert'', Bool True)]) sx = (err, su)"
      and called: "call w (callback ps) [err, result] su = (r, sc)"
      and "R = cachedAggregate w arguments s \<and> execution = Aggregate q
                  \<and> aggregateAsync w q sf = (Resolved result, sx) \<and> stored = result
                \<or> R = cachedMapReduce w arguments s \<and> execution = MapReduce q
                  \<and> mapReduceAsync w q sf = (Resolved result, sx)
                  \<and> stored = (if truthy (usesInlineOutput q) then result
                                else js_and result (get_prop result ''collectionName''))"
    with cachedAggregate_miss [of arguments w s entry sf result sx doc err su r sc]
      cachedMapReduce_miss [of arguments w s entry sf result sx stored doc err su r sc] opts cb
    have "R = \<lparr> thrown = None,
               trace = [Collection name, FindOne h sel, execution,
                        Update h sel doc (Obj [(''upsert'', Bool True)]), Callback [err, result]]
                       @ (case r of None \<Rightarrow> []
                          | Some x \<Rightarrow> if update_sync w then [Callback [x]] else []),
               final = (case r of None \<Rightarrow> sc
                        | Some x \<Rightarrow> if update_sync w then snd (call w (callback ps) [x] sc) else sc) \<rparr>"
      unfolding ps_def name_def h_def sel_def q_def by auto
    then show "trace R = [Collection name, FindOne h sel, execution,
                             Update h sel doc (Obj [(''upsert'', Bool True)]), Callback [err, result]]
                            @ (case r of None \<Rightarrow> []
                               | Some x \<Rightarrow> if update_sync w then [Callback [x]] else [])"
      by simp
  qed
  from c1 c2 c3 show ?thesis
    by (intro conjI)
qed


text \<open>
  A rejected lookup, a rejected map-reduce and a failed write, each with the stubs of the
  test suite.
\<close>

theorem failures_reported_once_witness:
  "trace (cachedAggregate
            (stub_world (Rejected (Str ''lookup failed'')) (Resolved Null) Undefined (\<lambda>args. None))
            [Str ''test'', Obj [], Fun ''callback''] ())
     = [Collection (Str ''test''),
        FindOne (Obj [(''collectionName'', Str ''test'')])
                (Obj [(''queryHash'', Str (hashQueryArgs [Obj []]))]),
        Callback [Str ''lookup failed'']]
   \<and> trace (cachedMapReduce
            (stub_world (Resolved Null) (Rejected (Str ''query failed'')) Undefined (\<lambda>args. None))
            [Str ''testCache'', Obj [], Fun ''callback''] ())
     = [Collection (Str ''testCache''),
        FindOne (Obj [(''collectionName'', Str ''testCache'')])
                (Obj [(''queryHash'', Str (hashQueryArgs [Obj []]))]),
        MapReduce [Obj []],
        Callback [Str ''query failed'']]
   \<and> trace (cachedAggregate
            (stub_world (Resolved Null) (Resolved (Obj [(''some'', Str ''result'')]))
                        (Str ''write failed'') (\<lambda>args. None))
            [Str ''test'', Obj [], Fun ''callback''] ())
     = [Collection (Str ''test''),
        FindOne (Obj [(''collectionName'', Str ''test'')])
                (Obj [(''queryHash'', Str (hashQueryArgs [Obj []]))]),
        Aggregate [Obj []],
        Update (Obj [(''collectionName'', Str ''test'')])
               (Obj [(''queryHash'', Str (hashQueryArgs [Obj []]))])
               (Obj [(''queryHash'', Str (hashQueryArgs [Obj []])), (''cachedAt'', Num 0),
                     (''cachedResult'', Obj [(''some'', Str ''result'')])])
               (Obj [(''upsert'', Bool True)]),
        Callback [Str ''write failed'', Obj [(''some'', Str ''result'')]]]"
  using
    failures_reported_once
      [where w = "stub_world (Rejected (Str ''lookup failed'')) (Resolved Null) Undefined (\<lambda>args. None)"
         and arguments = "[Str ''test'', Obj [], Fun ''callback'']"
         and s = "()" and sf = "()" and e = "Str ''lookup failed''"
         and R = "cachedAggregate
            (stub_world (Rejected (Str ''lookup failed'')) (Resolved Null) Undefined (\<lambda>args. None))
            [Str ''test'', Obj [], Fun ''callback''] ()",
       THEN conjunct1]
    failures_reported_once
      [where w = "stub_world (Resolved Null) (Rejected (Str ''query failed'')) Undefined (\<lambda>args. None)"
         and arguments = "[Str ''testCache'', Obj [], Fun ''callback'']"
         and s = "()" and sf = "()" and sx = "()" and e = "Str ''query failed''" and entry = Null
         and execution = "MapReduce [Obj []]"
         and R = "cachedMapReduce
            (stub_world (Resolved Null) (Rejected (Str ''query failed'')) Undefined (\<lambda>args. None))
            [Str ''testCache'', Obj [], Fun ''callback''] ()",
       THEN conjunct2, THEN conjunct1]
    failures_reported_once
      [where w = "stub_world (Resolved Null) (Resolved (Obj [(''some'', Str ''result'')]))
                        (Str ''write failed'') (\<lambda>args. None)"
         and arguments = "[Str ''test'', Obj [], Fun ''callback'']"
         and s = "()" and sf = "()" and sx = "()" and su = "()" and sc = "()" and entry = Null
         and result = "Obj [(''some'', Str ''result'')]" and stored = "Obj [(''some'', Str ''result'')]"
         and execution = "Aggregate [Obj []]" and err = "Str ''write failed''" and r = None
         and doc = "Obj [(''queryHash'', Str (hashQueryArgs [Obj []])), (''cachedAt'', Num 0),
                         (''cachedResult'', Obj [(''some'', Str ''result'')])]"
         and R = "cachedAggregate
            (stub_world (Resolved Null) (Resolved (Obj [(''some'', Str ''result'')]))
                        (Str ''write failed'') (\<lambda>args. None))
            [Str ''test'', Obj [], Fun ''callback''] ()",
       THEN conjunct2, THEN conjunct2]
  by (simp add: stub_world_def parseCacheFuncParams_def index_def nullish_def js_or_def js_and_def
                usesInlineOutput_def writes_def executions_def)

text \<open>
  C10. When the query is fulfilled with \<open>result\<close> and the one \<^verbatim>\<open>update\<close> answers \<open>err\<close>
  (the write error, when the write failed), the first call of the handler is
  \<^verbatim>\<open>callback(err, result)\<close>: the error first and the live result second, which for
  \<^verbatim>\<open>cachedMapReduce\<close> is the result itself (the handle), whatever was to be stored.
  The handler is called again only if that call throws inside a synchronous
  \<^verbatim>\<open>update\<close> callback, as in C6.
\<close>

theorem write_failure_keeps_result:
  fixes w :: "'s world" and arguments :: "jsval list"
  defines "ps \<equiv> parseCacheFuncParams arguments"
  defines "name \<equiv> js_or (get_prop (cacheOptions ps) ''cacheCollectionName'') (Str ''queryCache'')"
  defines "h \<equiv> collection w name"
  defines "sel \<equiv> Obj [(''queryHash'', Str (hashQueryArgs (queryArgsArray ps)))]"
  defines "q \<equiv> queryArgsArray ps"
  assumes opts: "\<not> nullish (cacheOptions ps)"
      and cb: "typeof (callback ps) = ''function''"
      and found: "findOneAsync w h sel s = (Resolved entry, sf)"
      and miss: "isEmpty entry \<or> truthy (get_prop (cacheOptions ps) ''forceUpdateCache'')"
      and executed:
        "R = cachedAggregate w arguments s
           \<and> aggregateAsync w q sf = (Resolved result, sx) \<and> stored = result
         \<or> R = cachedMapReduce w arguments s
           \<and> mapReduceAsync w q sf = (Resolved result, sx)
           \<and> stored = (if truthy (usesInlineOutput q) then result
                         else js_and result (get_prop result ''collectionName''))"
      and failed:
        "update w h sel
           (Obj [(''queryHash'', Str (hashQueryArgs q)), (''cachedAt'', new_Date w sx),
                 (''cachedResult'', stored)])
           (Obj [(''upsert'', Bool True)]) sx = (err, su)"
      and called: "call w (callback ps) [err, result] su = (r, sc)"
  shows "callbacks (trace R)
           = Callback [err, result]
             # (case r of None \<Rightarrow> [] | Some x \<Rightarrow> if update_sync w then [Callback [x]] else [])
       \<and> length (writes (trace R)) = 1"
proof -
  let ?doc = "Obj [(''queryHash'', Str (hashQueryArgs q)), (''cachedAt'', new_Date w sx),
                   (''cachedResult'', stored)]"
  from executed
    cachedAggregate_miss [of arguments w s entry sf result sx ?doc err su r sc]
    cachedMapReduce_miss [of arguments w s entry sf result sx stored ?doc err su r sc]
    opts cb found miss failed called
  have "\<exists>execution. (execution = Aggregate q \<or> execution = MapReduce q) \<and>
         R = \<lparr> thrown = None,
             trace = [Collection name, FindOne h sel, execution,
                      Update h sel ?doc (Obj [(''upsert'', Bool True)]), Callback [err, result]]
                     @ (case r of None \<Rightarrow> []
                        | Some x \<Rightarrow> if update_sync w then [Callback [x]] else []),
             final = (case r of None \<Rightarrow> sc
                      | Some x \<Rightarrow> if update_sync w then snd (call w (callback ps) [x] sc) else sc) \<rparr>"
    unfolding ps_def name_def h_def sel_def q_def by auto
  then show ?thesis
    by (auto simp add: callbacks_def writes_def split: option.splits)
qed

text \<open>A failed write after a fulfilled aggregate and after a fulfilled map-reduce.\<close>

theorem write_failure_keeps_result_witness:
  "callbacks (trace (cachedAggregate
            (stub_world (Resolved Null) (Resolved (Obj [(''some'', Str ''result'')]))
                        (Str ''write failed'') (\<lambda>args. None))
            [Str ''test'', Obj [], Fun ''callback''] ()))
     = [Callback [Str ''write failed'', Obj [(''some'', Str ''result'')]]]
   \<and> callbacks (trace (cachedMapReduce
            (stub_world (Resolved Null) (Resolved (Obj [(''collectionName'', Str ''resultingWordCache'')]))
                        (Str ''write failed'') (\<lambda>args. None))
            [Str ''testCache'', Obj [], Fun ''callback''] ()))
     = [Callback [Str ''write failed'', Obj [(''collectionName'', Str ''resultingWordCache'')]]]"
  using
    write_failure_keeps_result
      [where w = "stub_world (Resolved Null) (Resolved (Obj [(''some'', Str ''result'')]))
                        (Str ''write failed'') (\<lambda>args. None)"
         and arguments = "[Str ''test'', Obj [], Fun ''callback'']"
         and s = "()" and sf = "()" and sx = "()" and su = "()" and sc = "()" and entry = Null
         and result = "Obj [(''some'', Str ''result'')]" and stored = "Obj [(''some'', Str ''result'')]"
         and err = "Str ''write failed''" and r = None
         and R = "cachedAggregate
            (stub_world (Resolved Null) (Resolved (Obj [(''some'', Str ''result'')]))
                        (Str ''write failed'') (\<lambda>args. None))
            [Str ''test'', Obj [], Fun ''callback''] ()"]
    write_failure_keeps_result
      [where w = "stub_world (Resolved Null) (Resolved (Obj [(''collectionName'', Str ''resultingWordCache'')]))
                        (Str ''write failed'') (\<lambda>args. None)"
         and arguments = "[Str ''testCache'', Obj [], Fun ''callback'']"
         and s = "()" and sf = "()" and sx = "()" and su = "()" and sc = "()" and entry = Null
         and result = "Obj [(''collectionName'', Str ''resultingWordCache'')]"
         and stored = "Str ''resultingWordCache''"
         and err = "Str ''write failed''" and r = None
         and R = "cachedMapReduce
            (stub_world (Resolved Null) (Resolved (Obj [(''collectionName'', Str ''resultingWordCache'')]))
                        (Str ''write failed'') (\<lambda>args. None))
            [Str ''testCache'', Obj [], Fun ''callback''] ()"]
  by (simp add: stub_world_def parseCacheFuncParams_def index_def nullish_def js_or_def js_and_def
                usesInlineOutput_def writes_def executions_def callbacks_def)

section \<open>The shape of a map-reduce result\<close>

lemma usesInlineOutput_truthy:
  "truthy (usesInlineOutput q) \<longleftrightarrow>
     truthy (index q 2) \<and> truthy (get_prop (index q 2) ''out'')
     \<and> truthy (get_prop (get_prop (index q 2) ''out'') ''inline'')"
  by (simp add: usesInlineOutput_def js_or_def js_and_def)

text \<open>
  C5. \<open>inline\<close> says that the third query argument has a truthy \<^verbatim>\<open>out.inline\<close>; it is what
  \<^verbatim>\<open>usesInlineOutput\<close> tests (\<open>usesInlineOutput_truthy\<close>). For any \<^verbatim>\<open>cachedMapReduce\<close>
  whose cache options can be read, whose handler is a function and whose lookup is
  fulfilled with \<open>entry\<close>:
  \<^item> a hit in inline mode calls the handler with the stored value and resolves no
    collection but the cache collection;
  \<^item> a hit in the other mode resolves the stored value with \<^verbatim>\<open>db.collection\<close> and calls
    the handler with the handle that returns;
  \<^item> a miss stores the raw result in inline mode, and in the other mode the
    \<^verbatim>\<open>collectionName\<close> of the result (a handle, hence truthy); either way the handler is
    called with the result itself.
\<close>

theorem mapReduce_result_shape:
  fixes w :: "'s world" and arguments :: "jsval list" and s :: 's
  defines "ps \<equiv> parseCacheFuncParams arguments"
  defines "name \<equiv> js_or (get_prop (cacheOptions ps) ''cacheCollectionName'') (Str ''queryCache'')"
  defines "h \<equiv> collection w name"
  defines "sel \<equiv> Obj [(''queryHash'', Str (hashQueryArgs (queryArgsArray ps)))]"
  defines "q \<equiv> queryArgsArray ps"
  defines "inline \<equiv> truthy (index q 2) \<and> truthy (get_prop (index q 2) ''out'')
                      \<and> truthy (get_prop (get_prop (index q 2) ''out'') ''inline'')"
  defines "R \<equiv> cachedMapReduce w arguments s"
  assumes opts: "\<not> nullish (cacheOptions ps)"
      and cb: "typeof (callback ps) = ''function''"
      and found: "findOneAsync w h sel s = (Resolved entry, sf)"
  shows "(\<not> isEmpty entry \<and> \<not> truthy (get_prop (cacheOptions ps) ''forceUpdateCache'') \<and> inline
          \<and> call w (callback ps) [Null, get_prop entry ''cachedResult''] sf = (r, sc)
          \<longrightarrow> trace R = [Collection name, FindOne h sel,
                           Callback [Null, get_prop entry ''cachedResult'']]
                          @ (case r of None \<Rightarrow> [] | Some x \<Rightarrow> [Callback [x]]))
       \<and> (\<not> isEmpty entry \<and> \<not> truthy (get_prop (cacheOptions ps) ''forceUpdateCache'') \<and> \<not> inline
          \<and> call w (callback ps) [Null, collection w (get_prop entry ''cachedResult'')] sf = (r, sc)
          \<longrightarrow> trace R = [Collection name, FindOne h sel,
                           Collection (get_prop entry ''cachedResult''),
                           Callback [Null, collection w (get_prop entry ''cachedResult'')]]
                          @ (case r of None \<Rightarrow> [] | Some x \<Rightarrow> [Callback [x]]))
       \<and> ((isEmpty entry \<or> truthy (get_prop (cacheOptions ps) ''forceUpdateCache''))
          \<and> mapReduceAsync w q sf = (Resolved result, sx)
          \<and> (inline \<and> stored = result
              \<or> \<not> inline \<and> truthy result \<and> stored = get_prop result ''collectionName'')
          \<and> update w h sel
                (Obj [(''queryHash'', Str (hashQueryArgs q)), (''cachedAt'', new_Date w sx),
                      (''cachedResult'', stored)])
                (Obj [(''upsert'', Bool True)]) sx = (err, su)
          \<and> call w (callback ps) [err, result] su = (r, sc)
          \<longrightarrow> writes (trace R)
                = [Update h sel
                     (Obj [(''queryHash'', Str (hashQueryArgs q)), (''cachedAt'', new_Date w sx),
                           (''cachedResult'', stored)])
                     (Obj [(''upsert'', Bool True)])]
              \<and> hd (callbacks (trace R)) = Callback [err, result])"
proof -
  have inline: "inline = truthy (usesInlineOutput q)"
    by (simp add: inline_def usesInlineOutput_truthy)
  have c1:
    "\<not> isEmpty entry \<and> \<not> truthy (get_prop (cacheOptions ps) ''forceUpdateCache'') \<and> inline
          \<and> call w (callback ps) [Null, get_prop entry ''cachedResult''] sf = (r, sc)
          \<longrightarrow> trace R = [Collection name, FindOne h sel,
                           Callback [Null, get_prop entry ''cachedResult'']]
                          @ (case r of None \<Rightarrow> [] | Some x \<Rightarrow> [Callback [x]])"
    using cachedMapReduce_hit_inline [of arguments w s entry sf r sc] opts cb found
    unfolding ps_def name_def h_def sel_def q_def R_def inline by auto
  have c2:
    "\<not> isEmpty entry \<and> \<not> truthy (get_prop (cacheOptions ps) ''forceUpdateCache'') \<and> \<not> inline
          \<and> call w (callback ps) [Null, collection w (get_prop entry ''cachedResult'')] sf = (r, sc)
          \<longrightarrow> trace R = [Collection name, FindOne h sel,
                           Collection (get_prop entry ''cachedResult''),
                           Callback [Null, collection w (get_prop entry ''cachedResult'')]]
                          @ (case r of None \<Rightarrow> [] | Some x \<Rightarrow> [Callback [x]])"
    using cachedMapReduce_hit_collection [of arguments w s entry sf r sc] opts cb found
    unfolding ps_def name_def h_def sel_def q_def R_def inline by auto
  let ?doc = "Obj [(''queryHash'', Str (hashQueryArgs q)), (''cachedAt'', new_Date w sx),
                   (''cachedResult'', stored)]"
  have c3:
    "(isEmpty entry \<or> truthy (get_prop (cacheOptions ps) ''forceUpdateCache''))
          \<and> mapReduceAsync w q sf = (Resolved result, sx)
          \<and> (inline \<and> stored = result
              \<or> \<not> inline \<and> truthy result \<and> stored = get_prop result ''collectionName'')
          \<and> update w h sel ?doc (Obj [(''upsert'', Bool True)]) sx = (err, su)
          \<and> call w (callback ps) [err, result] su = (r, sc)
          \<longrightarrow> writes (trace R) = [Update h sel ?doc (Obj [(''upsert'', Bool True)])]
              \<and> hd (callbacks (trace R)) = Callback [err, result]"
  proof (intro impI, elim conjE)
    assume miss: "isEmpty entry \<or> truthy (get_prop (cacheOptions ps) ''forceUpdateCache'')"
      and executed: "mapReduceAsync w q sf = (Resolved result, sx)"
      and stored: "inline \<and> stored = result
              \<or> \<not> inline \<and> truthy result \<and> stored = get_prop result ''collectionName''"
      and written: "update w h sel ?doc (Obj [(''upsert'', Bool True)]) sx = (err, su)"
      and called: "call w (callback ps) [err, result] su = (r, sc)"
    from stored have "stored = (if truthy (usesInlineOutput q) then result
                                else js_and result (get_prop result ''collectionName''))"
      by (auto simp add: inline js_and_def)
    with cachedMapReduce_miss [of arguments w s entry sf result sx stored ?doc err su r sc]
      opts cb found miss executed written called
    have "R = \<lparr> thrown = None,
             trace = [Collection name, FindOne h sel, MapReduce q,
                      Update h sel ?doc (Obj [(''upsert'', Bool True)]), Callback [err, result]]
                     @ (case r of None \<Rightarrow> []
                        | Some x \<Rightarrow> if update_sync w then [Callback [x]] else []),
             final = (case r of None \<Rightarrow> sc
                      | Some x \<Rightarrow> if update_sync w then snd (call w (callback ps) [x] sc) else sc) \<rparr>"
      unfolding ps_def name_def h_def sel_def q_def R_def by simp
    then show "writes (trace R) = [Update h sel ?doc (Obj [(''upsert'', Bool True)])]
              \<and> hd (callbacks (trace R)) = Callback [err, result]"
      by (simp add: writes_def callbacks_def split: option.splits)
  qed
  from c1 c2 c3 show ?thesis
    by (intro conjI)
qed


text \<open>The four map-reduce tests of the suite: hit and miss, inline and not.\<close>

theorem mapReduce_result_shape_witness:
  "trace (cachedMapReduce
            (stub_world (Resolved (Obj [(''cachedResult'', Arr [Str ''some'', Str ''inline'', Str ''results''])]))
                        (Resolved Null) Undefined (\<lambda>args. None))
            [Str ''testCache'', Null, Null, Obj [(''out'', Obj [(''inline'', Num 1)])], Fun ''callback''] ())
     = [Collection (Str ''testCache''),
        FindOne (Obj [(''collectionName'', Str ''testCache'')])
                (Obj [(''queryHash'', Str (hashQueryArgs [Null, Null, Obj [(''out'', Obj [(''inline'', Num 1)])]]))]),
        Callback [Null, Arr [Str ''some'', Str ''inline'', Str ''results'']]]
   \<and> trace (cachedMapReduce
            (stub_world (Resolved (Obj [(''cachedResult'', Str ''resultingWordCache'')]))
                        (Resolved Null) Undefined (\<lambda>args. None))
            [Str ''testCache'', Obj [], Fun ''callback''] ())
     = [Collection (Str ''testCache''),
        FindOne (Obj [(''collectionName'', Str ''testCache'')])
                (Obj [(''queryHash'', Str (hashQueryArgs [Obj []]))]),
        Collection (Str ''resultingWordCache''),
        Callback [Null, Obj [(''collectionName'', Str ''resultingWordCache'')]]]
   \<and> writes (trace (cachedMapReduce
            (stub_world (Resolved Null) (Resolved (Arr [Str ''some'', Str ''inline'', Str ''results'']))
                        Undefined (\<lambda>args. None))
            [Str ''testCache'', Null, Null, Obj [(''out'', Obj [(''inline'', Num 1)])], Fun ''callback''] ()))
     = [Update (Obj [(''collectionName'', Str ''testCache'')])
               (Obj [(''queryHash'', Str (hashQueryArgs [Null, Null, Obj [(''out'', Obj [(''inline'', Num 1)])]]))])
               (Obj [(''queryHash'', Str (hashQueryArgs [Null, Null, Obj [(''out'', Obj [(''inline'', Num 1)])]])),
                     (''cachedAt'', Num 0),
                     (''cachedResult'', Arr [Str ''some'', Str ''inline'', Str ''results''])])
               (Obj [(''upsert'', Bool True)])]
   \<and> writes (trace (cachedMapReduce
            (stub_world (Resolved Null) (Resolved (Obj [(''collectionName'', Str ''resultingWordCache'')]))
                        Undefined (\<lambda>args. None))
            [Str ''testCache'', Obj [], Fun ''callback''] ()))
     = [Update (Obj [(''collectionName'', Str ''testCache'')])
               (Obj [(''queryHash'', Str (hashQueryArgs [Obj []]))])
               (Obj [(''queryHash'', Str (hashQueryArgs [Obj []])), (''cachedAt'', Num 0),
                     (''cachedResult'', Str ''resultingWordCache'')])
               (Obj [(''upsert'', Bool True)])]"
  using
    mapReduce_result_shape
      [where w = "stub_world (Resolved (Obj [(''cachedResult'', Arr [Str ''some'', Str ''inline'', Str ''results''])]))
                        (Resolved Null) Undefined (\<lambda>args. None)"
         and arguments = "[Str ''testCache'', Null, Null, Obj [(''out'', Obj [(''inline'', Num 1)])], Fun ''callback'']"
         and s = "()" and sf = "()" and sc = "()" and r = None
         and entry = "Obj [(''cachedResult'', Arr [Str ''some'', Str ''inline'', Str ''results''])]",
       THEN conjunct1]
    mapReduce_result_shape
      [where w = "stub_world (Resolved (Obj [(''cachedResult'', Str ''resultingWordCache'')]))
                        (Resolved Null) Undefined (\<lambda>args. None)"
         and arguments = "[Str ''testCache'', Obj [], Fun ''callback'']"
         and s = "()" and sf = "()" and sc = "()" and r = None
         and entry = "Obj [(''cachedResult'', Str ''resultingWordCache'')]",
       THEN conjunct2, THEN conjunct1]
    mapReduce_result_shape
      [where w = "stub_world (Resolved Null) (Resolved (Arr [Str ''some'', Str ''inline'', Str ''results'']))
                        Undefined (\<lambda>args. None)"
         and arguments = "[Str ''testCache'', Null, Null, Obj [(''out'', Obj [(''inline'', Num 1)])], Fun ''callback'']"
         and s = "()" and sf = "()" and sx = "()" and su = "()" and sc = "()" and r = None
         and entry = Null and err = Undefined
         and result = "Arr [Str ''some'', Str ''inline'', Str ''results'']"
         and stored = "Arr [Str ''some'', Str ''inline'', Str ''results'']",
       THEN conjunct2, THEN conjunct2]
    mapReduce_result_shape
      [where w = "stub_world (Resolved Null) (Resolved (Obj [(''collectionName'', Str ''resultingWordCache'')]))
                        Undefined (\<lambda>args. None)"
         and arguments = "[Str ''testCache'', Obj [], Fun ''callback'']"
         and s = "()" and sf = "()" and sx = "()" and su = "()" and sc = "()" and r = None
         and entry = Null and err = Undefined
         and result = "Obj [(''collectionName'', Str ''resultingWordCache'')]"
         and stored = "Str ''resultingWordCache''",
       THEN conjunct2, THEN conjunct2]
  by (simp add: stub_world_def parseCacheFuncParams_def index_def nullish_def js_or_def js_and_def)

section \<open>The cache options\<close>

lemma parseCacheFuncParams_string:
  "parseCacheFuncParams (Str n # q @ [cb])
     = \<lparr> callback = cb, cacheOptions = Obj [(''cacheCollectionName'', Str n)], queryArgsArray = q \<rparr>"
  by (simp add: parseCacheFuncParams_def Let_def index_def butlast_append)

lemma parseCacheFuncParams_object:
  "parseCacheFuncParams (Obj kvs # q @ [cb])
     = \<lparr> callback = cb, cacheOptions = Obj kvs, queryArgsArray = q \<rparr>"
  by (simp add: parseCacheFuncParams_def Let_def index_def butlast_append)

text \<open>
  C7. For every string \<open>n\<close>, query arguments \<open>q\<close> and handler \<open>cb\<close>, the call with the
  string \<open>n\<close> first and the call with \<^verbatim>\<open>{ cacheCollectionName: n }\<close> first are normalized
  to the same parameters, and so are the same run in every world and state: the same
  collection is resolved, the same fingerprint looked up, the same calls made and the
  same handler calls with the same arguments.
\<close>

theorem string_is_sugar_for_cacheCollectionName:
  "parseCacheFuncParams (Str n # q @ [cb])
     = \<lparr> callback = cb, cacheOptions = Obj [(''cacheCollectionName'', Str n)], queryArgsArray = q \<rparr>
   \<and> parseCacheFuncParams (Obj [(''cacheCollectionName'', Str n)] # q @ [cb])
     = \<lparr> callback = cb, cacheOptions = Obj [(''cacheCollectionName'', Str n)], queryArgsArray = q \<rparr>
   \<and> cachedAggregate w (Str n # q @ [cb]) s
     = cachedAggregate w (Obj [(''cacheCollectionName'', Str n)] # q @ [cb]) s
   \<and> cachedMapReduce w (Str n # q @ [cb]) s
     = cachedMapReduce w (Obj [(''cacheCollectionName'', Str n)] # q @ [cb]) s"
  by (simp add: cachedAggregate_def cachedMapReduce_def parseCacheFuncParams_string
        parseCacheFuncParams_object)

text \<open>
  Every run whose cache options can be read and whose handler is a function starts by
  resolving the cache collection and looking the fingerprint up, and calls the handler.
\<close>

lemma cachedAggregate_completes:
  fixes w :: "'s world" and arguments :: "jsval list" and s :: 's
  defines "ps \<equiv> parseCacheFuncParams arguments"
  defines "name \<equiv> js_or (get_prop (cacheOptions ps) ''cacheCollectionName'') (Str ''queryCache'')"
  defines "h \<equiv> collection w name"
  defines "sel \<equiv> Obj [(''queryHash'', Str (hashQueryArgs (queryArgsArray ps)))]"
  defines "R \<equiv> cachedAggregate w arguments s"
  assumes opts: "\<not> nullish (cacheOptions ps)"
      and cb: "typeof (callback ps) = ''function''"
  shows "thrown R = None \<and> take 2 (trace R) = [Collection name, FindOne h sel]
         \<and> callbacks (trace R) \<noteq> []"
proof -
  obtain found sf where f: "findOneAsync w h sel s = (found, sf)"
    by (cases "findOneAsync w h sel s")
  show ?thesis
  proof (cases found)
    case (Rejected e)
    with cachedAggregate_lookup_rejected [of arguments w s e sf] opts cb f
    show ?thesis
      unfolding ps_def name_def h_def sel_def R_def by (simp add: callbacks_def)
  next
    case (Resolved entry)
    show ?thesis
    proof (cases "\<not> isEmpty entry \<and> \<not> truthy (get_prop (cacheOptions ps) ''forceUpdateCache'')")
      case True
      obtain r sc where "call w (callback ps) [Null, get_prop entry ''cachedResult''] sf = (r, sc)"
        by (cases "call w (callback ps) [Null, get_prop entry ''cachedResult''] sf")
      with cachedAggregate_hit [of arguments w s entry sf r sc] opts cb f Resolved True
      show ?thesis
        unfolding ps_def name_def h_def sel_def R_def
        by (simp add: callbacks_def split: option.splits)
    next
      case False
      then have miss: "isEmpty entry \<or> truthy (get_prop (cacheOptions ps) ''forceUpdateCache'')"
        by blast
      obtain executed sx where x: "aggregateAsync w (queryArgsArray ps) sf = (executed, sx)"
        by (cases "aggregateAsync w (queryArgsArray ps) sf")
      show ?thesis
      proof (cases executed)
        case (Rejected e)
        with cachedAggregate_execution_rejected [of arguments w s entry sf e sx]
          opts cb f \<open>found = Resolved entry\<close> miss x
        show ?thesis
          unfolding ps_def name_def h_def sel_def R_def by (simp add: callbacks_def)
      next
        case (Resolved result)
        define doc where "doc = Obj [(''queryHash'', Str (hashQueryArgs (queryArgsArray ps))),
                      (''cachedAt'', new_Date w sx), (''cachedResult'', result)]"
        obtain err su where u: "update w h sel doc (Obj [(''upsert'', Bool True)]) sx = (err, su)"
          by (cases "update w h sel doc (Obj [(''upsert'', Bool True)]) sx")
        obtain r sc where c: "call w (callback ps) [err, result] su = (r, sc)"
          by (cases "call w (callback ps) [err, result] su")
        from cachedAggregate_miss [of arguments w s entry sf result sx doc err su r sc]
          opts cb f \<open>found = Resolved entry\<close> miss x Resolved u c doc_def
        show ?thesis
          unfolding ps_def name_def h_def sel_def R_def
          by (simp add: callbacks_def split: option.splits)
      qed
    qed
  qed
qed

lemma cachedMapReduce_completes:
  fixes w :: "'s world" and arguments :: "jsval list" and s :: 's
  defines "ps \<equiv> parseCacheFuncParams arguments"
  defines "name \<equiv> js_or (get_prop (cacheOptions ps) ''cacheCollectionName'') (Str ''queryCache'')"
  defines "h \<equiv> collection w name"
  defines "sel \<equiv> Obj [(''queryHash'', Str (hashQueryArgs (queryArgsArray ps)))]"
  defines "R \<equiv> cachedMapReduce w arguments s"
  assumes opts: "\<not> nullish (cacheOptions ps)"
      and cb: "typeof (callback ps) = ''function''"
  shows "thrown R = None \<and> take 2 (trace R) = [Collection name, FindOne h sel]
         \<and> callbacks (trace R) \<noteq> []"
proof -
  obtain found sf where f: "findOneAsync w h sel s = (found, sf)"
    by (cases "findOneAsync w h sel s")
  show ?thesis
  proof (cases found)
    case (Rejected e)
    with cachedMapReduce_lookup_rejected [of arguments w s e sf] opts cb f
    show ?thesis
      unfolding ps_def name_def h_def sel_def R_def by (simp add: callbacks_def)
  next
    case (Resolved entry)
    show ?thesis
    proof (cases "\<not> isEmpty entry \<and> \<not> truthy (get_prop (cacheOptions ps) ''forceUpdateCache'')")
      case True
      show ?thesis
      proof (cases "truthy (usesInlineOutput (queryArgsArray ps))")
        case inline: True
        obtain r sc where "call w (callback ps) [Null, get_prop entry ''cachedResult''] sf = (r, sc)"
          by (cases "call w (callback ps) [Null, get_prop entry ''cachedResult''] sf")
        with cachedMapReduce_hit_inline [of arguments w s entry sf r sc] opts cb f Resolved True inline
        show ?thesis
          unfolding ps_def name_def h_def sel_def R_def
          by (simp add: callbacks_def split: option.splits)
      next
        case other: False
        obtain r sc
          where "call w (callback ps) [Null, collection w (get_prop entry ''cachedResult'')] sf = (r, sc)"
          by (cases "call w (callback ps) [Null, collection w (get_prop entry ''cachedResult'')] sf")
        with cachedMapReduce_hit_collection [of arguments w s entry sf r sc] opts cb f Resolved True other
        show ?thesis
          unfolding ps_def name_def h_def sel_def R_def
          by (simp add: callbacks_def split: option.splits)
      qed
    next
      case False
      then have miss: "isEmpty entry \<or> truthy (get_prop (cacheOptions ps) ''forceUpdateCache'')"
        by blast
      obtain executed sx where x: "mapReduceAsync w (queryArgsArray ps) sf = (executed, sx)"
        by (cases "mapReduceAsync w (queryArgsArray ps) sf")
      show ?thesis
      proof (cases executed)
        case (Rejected e)
        with cachedMapReduce_execution_rejected [of arguments w s entry sf e sx]
          opts cb f \<open>found = Resolved entry\<close> miss x
        show ?thesis
          unfolding ps_def name_def h_def sel_def R_def by (simp add: callbacks_def)
      next
        case (Resolved result)
        define stored where "stored = (if truthy (usesInlineOutput (queryArgsArray ps)) then result
                            else js_and result (get_prop result ''collectionName''))"
        define doc where "doc = Obj [(''queryHash'', Str (hashQueryArgs (queryArgsArray ps))),
                      (''cachedAt'', new_Date w sx), (''cachedResult'', stored)]"
        obtain err su where u: "update w h sel doc (Obj [(''upsert'', Bool True)]) sx = (err, su)"
          by (cases "update w h sel doc (Obj [(''upsert'', Bool True)]) sx")
        obtain r sc where c: "call w (callback ps) [err, result] su = (r, sc)"
          by (cases "call w (callback ps) [err, result] su")
        from cachedMapReduce_miss [of arguments w s entry sf result sx stored doc err su r sc]
          opts cb f \<open>found = Resolved entry\<close> miss x Resolved u c doc_def stored_def
        show ?thesis
          unfolding ps_def name_def h_def sel_def R_def
          by (simp add: callbacks_def split: option.splits)
      qed
    qed
  qed
qed

text \<open>
  The claim C8 fails where the cache options are \<^verbatim>\<open>undefined\<close>, or absent altogether:
  \<^verbatim>\<open>params.cacheOptions.cacheCollectionName\<close> throws a TypeError, so the call throws
  before any collection is resolved, and the handler is never called.
\<close>

theorem undefined_cacheOptions_counterexample:
  "cachedAggregate (stub_world (Resolved Null) (Resolved (Obj [(''some'', Str ''result'')])) Undefined returns)
     [Undefined, Obj [], Fun ''callback''] ()
     = \<lparr> thrown = Some TypeError, trace = [], final = () \<rparr>
   \<and> cachedMapReduce (stub_world (Resolved Null) (Resolved (Obj [(''some'', Str ''result'')])) Undefined returns)
     [Fun ''callback''] ()
     = \<lparr> thrown = Some TypeError, trace = [], final = () \<rparr>"
  by (simp add: cachedAggregate_def cachedMapReduce_def parseCacheFuncParams_def Let_def index_def
        nullish_def)

text \<open>
  C8 (amended). When the cache options are \<^verbatim>\<open>undefined\<close> or \<^verbatim>\<open>null\<close>, either operation
  throws a TypeError to its caller and calls nothing. When they are any other value with
  no truthy \<^verbatim>\<open>cacheCollectionName\<close> (an object lacking it, say) and the handler is a
  function, the run throws nothing, resolves the collection named \<^verbatim>\<open>queryCache\<close>, looks
  the fingerprint up in it and calls the handler.
\<close>

theorem default_cache_collection:
  fixes w :: "'s world" and arguments :: "jsval list"
  defines "ps \<equiv> parseCacheFuncParams arguments"
  defines "sel \<equiv> Obj [(''queryHash'', Str (hashQueryArgs (queryArgsArray ps)))]"
  shows "(nullish (cacheOptions ps)
          \<longrightarrow> cachedAggregate w arguments s = \<lparr> thrown = Some TypeError, trace = [], final = s \<rparr>
              \<and> cachedMapReduce w arguments s = \<lparr> thrown = Some TypeError, trace = [], final = s \<rparr>)
       \<and> (\<not> nullish (cacheOptions ps)
          \<and> \<not> truthy (get_prop (cacheOptions ps) ''cacheCollectionName'')
          \<and> typeof (callback ps) = ''function''
          \<and> (R = cachedAggregate w arguments s \<or> R = cachedMapReduce w arguments s)
          \<longrightarrow> thrown R = None
              \<and> take 2 (trace R)
                  = [Collection (Str ''queryCache''), FindOne (collection w (Str ''queryCache'')) sel]
              \<and> callbacks (trace R) \<noteq> [])"
proof -
  have c1: "nullish (cacheOptions ps)
          \<longrightarrow> cachedAggregate w arguments s = \<lparr> thrown = Some TypeError, trace = [], final = s \<rparr>
              \<and> cachedMapReduce w arguments s = \<lparr> thrown = Some TypeError, trace = [], final = s \<rparr>"
    unfolding ps_def by (simp add: cachedAggregate_throws cachedMapReduce_throws)
  have c2: "\<not> nullish (cacheOptions ps)
          \<and> \<not> truthy (get_prop (cacheOptions ps) ''cacheCollectionName'')
          \<and> typeof (callback ps) = ''function''
          \<and> (R = cachedAggregate w arguments s \<or> R = cachedMapReduce w arguments s)
          \<longrightarrow> thrown R = None
              \<and> take 2 (trace R)
                  = [Collection (Str ''queryCache''), FindOne (collection w (Str ''queryCache'')) sel]
              \<and> callbacks (trace R) \<noteq> []"
    using cachedAggregate_completes [of arguments w s] cachedMapReduce_completes [of arguments w s]
    unfolding ps_def sel_def by (auto simp add: js_or_def)
  from c1 c2 show ?thesis
    by (intro conjI)
qed

text \<open>
  \<^verbatim>\<open>null\<close> as cache options, and the options \<^verbatim>\<open>{ forceUpdateCache: true }\<close> that name no
  collection.
\<close>

theorem default_cache_collection_witness:
  "cachedAggregate (stub_world (Resolved Null) (Resolved (Obj [(''some'', Str ''result'')])) Undefined returns)
     [Null, Obj [], Fun ''callback''] ()
     = \<lparr> thrown = Some TypeError, trace = [], final = () \<rparr>
   \<and> take 2 (trace (cachedMapReduce
         (stub_world (Resolved Null) (Resolved (Obj [(''some'', Str ''result'')])) Undefined returns)
         [Obj [(''forceUpdateCache'', Bool True)], Obj [], Fun ''callback''] ()))
     = [Collection (Str ''queryCache''),
        FindOne (Obj [(''collectionName'', Str ''queryCache'')])
                (Obj [(''queryHash'', Str (hashQueryArgs [Obj []]))])]"
  using
    default_cache_collection
      [where w = "stub_world (Resolved Null) (Resolved (Obj [(''some'', Str ''result'')])) Undefined returns"
         and arguments = "[Null, Obj [], Fun ''callback'']" and s = "()", THEN conjunct1]
    default_cache_collection
      [where w = "stub_world (Resolved Null) (Resolved (Obj [(''some'', Str ''result'')])) Undefined returns"
         and arguments = "[Obj [(''forceUpdateCache'', Bool True)], Obj [], Fun ''callback'']" and s = "()"
         and R = "cachedMapReduce
         (stub_world (Resolved Null) (Resolved (Obj [(''some'', Str ''result'')])) Undefined returns)
         [Obj [(''forceUpdateCache'', Bool True)], Obj [], Fun ''callback''] ()",
       THEN conjunct2]
  by (simp add: stub_world_def parseCacheFuncParams_def index_def nullish_def)

section \<open>What is written, and what it does to the cache\<close>

text \<open>
  The writes of a run and, on the storage layer, its final state, for any handler
  (function or not) and whatever it does.
\<close>

lemma writes_append: "writes (xs @ ys) = writes xs @ writes ys"
  by (simp add: writes_def)

lemma writes_call_callback:
  "writes (fst (snd (call_callback w cb args st))) = writes (fst st)"
  by (simp add: call_callback_def split_beta writes_def)

lemma writes_catch_callback:
  "writes (fst (catch_callback w cb x)) = writes (fst (snd x))"
  by (cases x, cases "fst x") (simp_all add: catch_callback_def writes_call_callback)

lemma writes_saveResultToCache:
  "writes (fst (snd (saveResultToCache w h F stored (\<lambda>err. call_callback w cb (args err)) st)))
     = writes (fst st)
       @ [Update h (Obj [(''queryHash'', Str F)])
            (Obj [(''queryHash'', Str F), (''cachedAt'', new_Date w (snd st)), (''cachedResult'', stored)])
            (Obj [(''upsert'', Bool True)])]"
  by (simp add: saveResultToCache_def split_beta Let_def call_callback_def writes_def)

lemma writes_aggregate_then:
  "writes (fst (snd (aggregate_then w ps h F entry st)))
     = writes (fst st)
       @ (if \<not> isEmpty entry \<and> \<not> truthy (get_prop (cacheOptions ps) ''forceUpdateCache'') then []
          else case fst (aggregateAsync w (queryArgsArray ps) (snd st)) of
                 Rejected e \<Rightarrow> []
               | Resolved result \<Rightarrow>
                   [Update h (Obj [(''queryHash'', Str F)])
                      (Obj [(''queryHash'', Str F),
                            (''cachedAt'', new_Date w (snd (aggregateAsync w (queryArgsArray ps) (snd st)))),
                            (''cachedResult'', result)])
                      (Obj [(''upsert'', Bool True)])])"
  by (simp add: aggregate_then_def split_beta writes_call_callback writes_catch_callback
        writes_saveResultToCache writes_append
      split: outcome.splits)
     (simp add: writes_def)


lemma writes_mapReduce_then:
  "writes (fst (snd (mapReduce_then w ps h F entry st)))
     = writes (fst st)
       @ (if \<not> isEmpty entry \<and> \<not> truthy (get_prop (cacheOptions ps) ''forceUpdateCache'') then []
          else case fst (mapReduceAsync w (queryArgsArray ps) (snd st)) of
                 Rejected e \<Rightarrow> []
               | Resolved result \<Rightarrow>
                   [Update h (Obj [(''queryHash'', Str F)])
                      (Obj [(''queryHash'', Str F),
                            (''cachedAt'', new_Date w (snd (mapReduceAsync w (queryArgsArray ps) (snd st)))),
                            (''cachedResult'',
                             if truthy (usesInlineOutput (queryArgsArray ps)) then result
                             else js_and result (get_prop result ''collectionName''))])
                      (Obj [(''upsert'', Bool True)])])"
  by (simp add: mapReduce_then_def split_beta Let_def writes_call_callback writes_catch_callback
        writes_saveResultToCache writes_append
      split: outcome.splits)
     (simp add: writes_def)

lemma writes_cachedAggregate:
  fixes w :: "'s world" and arguments :: "jsval list"
  defines "ps \<equiv> parseCacheFuncParams arguments"
  defines "F \<equiv> hashQueryArgs (queryArgsArray ps)"
  defines "h \<equiv> collection w (js_or (get_prop (cacheOptions ps) ''cacheCollectionName'') (Str ''queryCache''))"
  shows "writes (trace (cachedAggregate w arguments s)) = []
       \<or> (\<exists>at res. writes (trace (cachedAggregate w arguments s))
             = [Update h (Obj [(''queryHash'', Str F)])
                  (Obj [(''queryHash'', Str F), (''cachedAt'', at), (''cachedResult'', res)])
                  (Obj [(''upsert'', Bool True)])])"
  unfolding ps_def F_def h_def
  by (simp add: cachedAggregate_def Let_def split_beta writes_catch_callback writes_aggregate_then
      split: outcome.splits)
     (auto simp add: writes_def)

lemma writes_cachedMapReduce:
  fixes w :: "'s world" and arguments :: "jsval list"
  defines "ps \<equiv> parseCacheFuncParams arguments"
  defines "F \<equiv> hashQueryArgs (queryArgsArray ps)"
  defines "h \<equiv> collection w (js_or (get_prop (cacheOptions ps) ''cacheCollectionName'') (Str ''queryCache''))"
  shows "writes (trace (cachedMapReduce w arguments s)) = []
       \<or> (\<exists>at res. writes (trace (cachedMapReduce w arguments s))
             = [Update h (Obj [(''queryHash'', Str F)])
                  (Obj [(''queryHash'', Str F), (''cachedAt'', at), (''cachedResult'', res)])
                  (Obj [(''upsert'', Bool True)])])"
  unfolding ps_def F_def h_def
  by (simp add: cachedMapReduce_def Let_def split_beta writes_catch_callback writes_mapReduce_then
      split: outcome.splits)
     (auto simp add: writes_def)


lemma mongo_world_fields:
  "collection (mongo_world env) name = Obj [(''collectionName'', name)]"
  "findOneAsync (mongo_world env) h sel s =
     ((case lookup_error env of
         Some e \<Rightarrow> Rejected e
       | None \<Rightarrow> Resolved (store_findOne (s h) sel)), s)"
  "aggregateAsync (mongo_world env) args s = (aggregate_result env args, s)"
  "mapReduceAsync (mongo_world env) args s = (mapReduce_result env args, s)"
  "update (mongo_world env) h sel doc options s =
     (case write_error env of
        Some e \<Rightarrow> (e, s)
      | None \<Rightarrow> (Null, s(h := store_update (s h) sel doc (truthy (get_prop options ''upsert'')))))"
  "update_sync (mongo_world env) = calls_back_sync env"
  "call (mongo_world env) f args s = (handler_throws env args, s)"
  "new_Date (mongo_world env) s = clock env"
  by (simp_all add: mongo_world_def)

lemma final_call_callback_mongo:
  "snd (snd (call_callback (mongo_world env) cb args st)) = snd st"
  by (simp add: call_callback_def split_beta mongo_world_fields)

lemma final_catch_callback_mongo:
  "snd (catch_callback (mongo_world env) cb x) = snd (snd x)"
  by (cases x, cases "fst x") (simp_all add: catch_callback_def final_call_callback_mongo)

lemma final_saveResultToCache_mongo:
  "snd (snd (saveResultToCache (mongo_world env) h F stored
               (\<lambda>err. call_callback (mongo_world env) cb (args err)) st))
     = (case write_error env of
          Some e \<Rightarrow> snd st
        | None \<Rightarrow> (snd st)
            (h := store_update (snd st h) (Obj [(''queryHash'', Str F)])
                    (Obj [(''queryHash'', Str F), (''cachedAt'', clock env), (''cachedResult'', stored)])
                    True))"
  by (cases "write_error env")
     (simp_all add: saveResultToCache_def split_beta Let_def final_call_callback_mongo
        mongo_world_fields)

lemma final_aggregate_then_mongo:
  "snd (snd (aggregate_then (mongo_world env) ps h F entry st)) = snd st
   \<or> (\<exists>res. snd (snd (aggregate_then (mongo_world env) ps h F entry st))
         = (snd st)
            (h := store_update (snd st h) (Obj [(''queryHash'', Str F)])
                    (Obj [(''queryHash'', Str F), (''cachedAt'', clock env), (''cachedResult'', res)])
                    True))"
  by (simp add: aggregate_then_def split_beta final_call_callback_mongo final_catch_callback_mongo
        final_saveResultToCache_mongo
      split: outcome.splits option.splits)
     (auto simp add: mongo_world_fields)

lemma final_mapReduce_then_mongo:
  "snd (snd (mapReduce_then (mongo_world env) ps h F entry st)) = snd st
   \<or> (\<exists>res. snd (snd (mapReduce_then (mongo_world env) ps h F entry st))
         = (snd st)
            (h := store_update (snd st h) (Obj [(''queryHash'', Str F)])
                    (Obj [(''queryHash'', Str F), (''cachedAt'', clock env), (''cachedResult'', res)])
                    True))"
  by (simp add: mapReduce_then_def split_beta Let_def final_call_callback_mongo
        final_catch_callback_mongo final_saveResultToCache_mongo
      split: outcome.splits option.splits)
     (auto simp add: mongo_world_fields)


lemma final_cached_mongo:
  fixes arguments :: "jsval list"
  defines "ps \<equiv> parseCacheFuncParams arguments"
  defines "F \<equiv> hashQueryArgs (queryArgsArray ps)"
  defines "h \<equiv> Obj [(''collectionName'',
                      js_or (get_prop (cacheOptions ps) ''cacheCollectionName'') (Str ''queryCache''))]"
  assumes "M = cachedAggregate (mongo_world env) arguments t
           \<or> M = cachedMapReduce (mongo_world env) arguments t"
  shows "final M = t
       \<or> (\<exists>res. final M
             = t(h := store_update (t h) (Obj [(''queryHash'', Str F)])
                        (Obj [(''queryHash'', Str F), (''cachedAt'', clock env), (''cachedResult'', res)])
                        True))"
proof (cases "nullish (cacheOptions ps) \<or> lookup_error env \<noteq> None")
  case True
  with assms(4) show ?thesis
    unfolding ps_def
    by (auto simp add: cachedAggregate_def cachedMapReduce_def Let_def split_beta mongo_world_fields
          final_catch_callback_mongo)
next
  case False
  let ?sel = "Obj [(''queryHash'', Str F)]"
  let ?st = "([Collection (js_or (get_prop (cacheOptions ps) ''cacheCollectionName'') (Str ''queryCache'')),
               FindOne h ?sel], t)"
  from False assms(4)
  have "final M = snd (snd (aggregate_then (mongo_world env) ps h F (store_findOne (t h) ?sel) ?st))
      \<or> final M = snd (snd (mapReduce_then (mongo_world env) ps h F (store_findOne (t h) ?sel) ?st))"
    unfolding ps_def F_def h_def
    by (auto simp add: cachedAggregate_def cachedMapReduce_def Let_def split_beta mongo_world_fields
          final_catch_callback_mongo)
  with final_aggregate_then_mongo [of env ps h F "store_findOne (t h) ?sel" ?st]
    final_mapReduce_then_mongo [of env ps h F "store_findOne (t h) ?sel" ?st]
  show ?thesis
    by auto
qed

lemma matches_queryHash:
  "matches (Obj [(''queryHash'', v)]) d \<longleftrightarrow> get_prop d ''queryHash'' = v"
  by (simp add: matches_def)

lemma queryHashes_store_update:
  assumes "get_prop doc ''queryHash'' = v"
  shows "queryHashes (store_update ds (Obj [(''queryHash'', v)]) doc True)
           = (if v \<in> set (queryHashes ds) then queryHashes ds else queryHashes ds @ [v])"
  using assms by (induction ds) (auto simp add: queryHashes_def matches_queryHash)

lemma length_store_update:
  "length ds \<le> length (store_update ds sel doc True)"
  by (induction ds) auto

text \<open>
  C9. In any world, a run of either operation makes at most one write, and that write is
  an \<^verbatim>\<open>update\<close> of the cache collection with \<^verbatim>\<open>upsert\<close> set, whose selector is
  \<^verbatim>\<open>{ queryHash: F }\<close> for the fingerprint \<open>F\<close> of the query arguments and whose document
  carries the same \<^verbatim>\<open>queryHash\<close>. On the storage layer (where such an update replaces
  the first entry with that \<^verbatim>\<open>queryHash\<close>, or adds one when there is none), a run started
  on a database whose collection \<open>c\<close> has no two entries with the same \<^verbatim>\<open>queryHash\<close> ends
  on one where that still holds, where every \<^verbatim>\<open>queryHash\<close> that was there still is, and
  where \<open>c\<close> has no fewer entries than before: entries are added or replaced, never
  duplicated and never deleted. This holds on every path, failures included.
\<close>

theorem one_entry_per_queryHash:
  fixes w :: "'s world" and arguments :: "jsval list" and t :: store
  defines "ps \<equiv> parseCacheFuncParams arguments"
  defines "name \<equiv> js_or (get_prop (cacheOptions ps) ''cacheCollectionName'') (Str ''queryCache'')"
  defines "F \<equiv> hashQueryArgs (queryArgsArray ps)"
  assumes R: "R = cachedAggregate w arguments s \<or> R = cachedMapReduce w arguments s"
      and M: "M = cachedAggregate (mongo_world env) arguments t
              \<or> M = cachedMapReduce (mongo_world env) arguments t"
      and inv: "unique_hashes (t c)"
  shows "list_all (upsert_by_queryHash (collection w name) F) (writes (trace R))
       \<and> length (writes (trace R)) \<le> 1
       \<and> unique_hashes (final M c)
       \<and> set (queryHashes (t c)) \<subseteq> set (queryHashes (final M c))
       \<and> length (t c) \<le> length (final M c)"
proof -
  from R writes_cachedAggregate [of w arguments s] writes_cachedMapReduce [of w arguments s]
  have "writes (trace R) = []
       \<or> (\<exists>at res. writes (trace R)
             = [Update (collection w name) (Obj [(''queryHash'', Str F)])
                  (Obj [(''queryHash'', Str F), (''cachedAt'', at), (''cachedResult'', res)])
                  (Obj [(''upsert'', Bool True)])])"
    unfolding ps_def name_def F_def by auto
  then have A: "list_all (upsert_by_queryHash (collection w name) F) (writes (trace R))
       \<and> length (writes (trace R)) \<le> 1"
    by auto
  let ?h = "Obj [(''collectionName'', name)]"
  from M final_cached_mongo [of M env arguments t]
  consider "final M = t"
    | res where "final M
             = t(?h := store_update (t ?h) (Obj [(''queryHash'', Str F)])
                        (Obj [(''queryHash'', Str F), (''cachedAt'', clock env), (''cachedResult'', res)])
                        True)"
    unfolding ps_def name_def F_def by auto
  then have B: "unique_hashes (final M c)
       \<and> set (queryHashes (t c)) \<subseteq> set (queryHashes (final M c))
       \<and> length (t c) \<le> length (final M c)"
  proof cases
    case 1
    with inv show ?thesis by simp
  next
    case 2
    with inv show ?thesis
      by (cases "c = ?h")
         (auto simp add: unique_hashes_def queryHashes_store_update length_store_update)
  qed
  from A B show ?thesis
    by simp
qed

text \<open>
  The first run of the test suite's aggregate on an empty database, and a second run on
  the database the first one left.
\<close>

theorem one_entry_per_queryHash_witness:
  "list_all (upsert_by_queryHash (Obj [(''collectionName'', Str ''test'')]) (hashQueryArgs [Obj []]))
     (writes (trace (cachedAggregate
        (stub_world (Resolved Null) (Resolved (Obj [(''some'', Str ''result'')])) Undefined returns)
        [Str ''test'', Obj [], Fun ''callback''] ())))
   \<and> unique_hashes
        (final (cachedAggregate (mongo_world test_env) [Str ''test'', Obj [], Fun ''callback''] empty_store)
           (Obj [(''collectionName'', Str ''test'')]))
   \<and> unique_hashes
        (final (cachedMapReduce (mongo_world test_env) [Str ''test'', Obj [], Fun ''callback'']
                  (final (cachedAggregate (mongo_world test_env)
                            [Str ''test'', Obj [], Fun ''callback''] empty_store)))
           (Obj [(''collectionName'', Str ''test'')]))"
proof -
  let ?stub = "stub_world (Resolved Null) (Resolved (Obj [(''some'', Str ''result'')])) Undefined returns"
  let ?args = "[Str ''test'', Obj [], Fun ''callback'']"
  let ?c = "Obj [(''collectionName'', Str ''test'')]"
  let ?first = "cachedAggregate (mongo_world test_env) ?args empty_store"
  have empty: "unique_hashes (empty_store ?c)"
    by (simp add: empty_store_def unique_hashes_def queryHashes_def)
  have name: "js_or (get_prop (cacheOptions (parseCacheFuncParams ?args)) ''cacheCollectionName'')
                (Str ''queryCache'') = Str ''test''"
    and q: "queryArgsArray (parseCacheFuncParams ?args) = [Obj []]"
    by (simp_all add: parseCacheFuncParams_def index_def js_or_def)
  have handle: "collection ?stub (Str ''test'') = ?c"
    by (simp add: stub_world_def)
  note first = one_entry_per_queryHash
      [where w = ?stub and arguments = ?args and s = "()" and env = test_env and t = empty_store
         and c = ?c, OF disjI1 [OF refl] disjI1 [OF refl] empty, unfolded name q handle]
  then have "unique_hashes (final ?first ?c)"
    by (rule conjunct1 [OF conjunct2 [OF conjunct2]])
  note second = one_entry_per_queryHash
      [where w = ?stub and arguments = ?args and s = "()" and env = test_env and t = "final ?first"
         and c = ?c, OF disjI1 [OF refl] disjI2 [OF refl] this]
  from first second show ?thesis
    by blast
qed

section \<open>Forced update\<close>

lemma store_findOne_store_update:
  assumes "matches sel doc"
  shows "store_findOne (store_update ds sel doc True) sel = doc"
  using assms by (induction ds) (auto simp add: store_findOne_def)

lemma find_SomeD: "find P xs = Some x \<Longrightarrow> P x \<and> x \<in> set xs"
  by (induction xs) (auto split: if_splits)

text \<open>
  C3. On the storage layer, with reads and writes that succeed: take an invocation whose
  \<^verbatim>\<open>forceUpdateCache\<close> is truthy, whose handler is a function, and for whose fingerprint
  the cache collection already holds an entry \<open>old\<close>. When the query is fulfilled with
  \<open>result\<close>, the query was executed exactly once, the handler's first call is
  \<^verbatim>\<open>callback(null, result)\<close>, and afterwards the entry found for the fingerprint is
  \<^verbatim>\<open>{ queryHash, cachedAt, cachedResult }\<close> with the new value to store (the result; for
  a map-reduce that is not inline, its \<^verbatim>\<open>collectionName\<close>), while the collection holds the
  same \<^verbatim>\<open>queryHash\<close>es as before: the entry was overwritten, not added.
\<close>

theorem forced_update_overwrites:
  fixes arguments :: "jsval list" and t :: store and env :: env
  defines "ps \<equiv> parseCacheFuncParams arguments"
  defines "name \<equiv> js_or (get_prop (cacheOptions ps) ''cacheCollectionName'') (Str ''queryCache'')"
  defines "h \<equiv> collection (mongo_world env) name"
  defines "q \<equiv> queryArgsArray ps"
  defines "sel \<equiv> Obj [(''queryHash'', Str (hashQueryArgs (queryArgsArray ps)))]"
  assumes opts: "\<not> nullish (cacheOptions ps)"
      and cb: "typeof (callback ps) = ''function''"
      and reads: "lookup_error env = None"
      and writable: "write_error env = None"
      and existing: "find (matches sel) (t h) = Some old"
      and force: "truthy (get_prop (cacheOptions ps) ''forceUpdateCache'')"
      and executed:
        "M = cachedAggregate (mongo_world env) arguments t \<and> execution = Aggregate q
           \<and> aggregate_result env q = Resolved result \<and> stored = result
         \<or> M = cachedMapReduce (mongo_world env) arguments t \<and> execution = MapReduce q
           \<and> mapReduce_result env q = Resolved result
           \<and> stored = (if truthy (usesInlineOutput q) then result
                         else js_and result (get_prop result ''collectionName''))"
  shows "executions (trace M) = [execution]
       \<and> hd (callbacks (trace M)) = Callback [Null, result]
       \<and> store_findOne (final M h) sel
           = Obj [(''queryHash'', Str (hashQueryArgs q)), (''cachedAt'', clock env),
                  (''cachedResult'', stored)]
       \<and> queryHashes (final M h) = queryHashes (t h)"
proof -
  let ?w = "mongo_world env"
  let ?doc = "Obj [(''queryHash'', Str (hashQueryArgs (queryArgsArray ps))),
                   (''cachedAt'', new_Date ?w t), (''cachedResult'', stored)]"
  let ?t' = "t(h := store_update (t h) sel ?doc True)"
  let ?r = "handler_throws env [Null, result]"
  let ?run = "\<lparr> thrown = None,
             trace = [Collection name, FindOne h sel, execution,
                      Update h sel ?doc (Obj [(''upsert'', Bool True)]), Callback [Null, result]]
                     @ (case ?r of None \<Rightarrow> []
                        | Some x \<Rightarrow> if update_sync ?w then [Callback [x]] else []),
             final = (case ?r of None \<Rightarrow> ?t'
                      | Some x \<Rightarrow> if update_sync ?w then snd (call ?w (callback ps) [x] ?t') else ?t') \<rparr>"
  have found: "findOneAsync ?w h sel t = (Resolved old, t)"
    using reads existing by (simp add: mongo_world_fields(2) store_findOne_def)
  have miss: "isEmpty old \<or> truthy (get_prop (cacheOptions ps) ''forceUpdateCache'')"
    using force by simp
  have written: "update ?w h sel ?doc (Obj [(''upsert'', Bool True)]) t = (Null, ?t')"
    using writable by (simp add: mongo_world_fields(5))
  have called: "call ?w (callback ps) [Null, result] ?t' = (?r, ?t')"
    by (simp add: mongo_world_fields(7))
  from executed have run: "M = ?run \<and> (execution = Aggregate q \<or> execution = MapReduce q)"
  proof (elim disjE conjE)
    assume M: "M = cachedAggregate ?w arguments t" and e: "execution = Aggregate q"
      and x: "aggregate_result env q = Resolved result" and st: "stored = result"
    from x have ex: "aggregateAsync ?w (queryArgsArray ps) t = (Resolved result, t)"
      by (simp add: mongo_world_fields(3) q_def)
    have doc: "?doc = Obj [(''queryHash'', Str (hashQueryArgs (queryArgsArray ps))),
                   (''cachedAt'', new_Date ?w t), (''cachedResult'', result)]"
      by (simp add: st)
    from opts found miss ex doc written cb called
    have "cachedAggregate ?w arguments t
           = \<lparr> thrown = None,
             trace = [Collection name, FindOne h sel, Aggregate (queryArgsArray ps),
                      Update h sel ?doc (Obj [(''upsert'', Bool True)]), Callback [Null, result]]
                     @ (case ?r of None \<Rightarrow> []
                        | Some x \<Rightarrow> if update_sync ?w then [Callback [x]] else []),
             final = (case ?r of None \<Rightarrow> ?t'
                      | Some x \<Rightarrow> if update_sync ?w then snd (call ?w (callback ps) [x] ?t') else ?t') \<rparr>"
      unfolding ps_def name_def h_def sel_def by (rule cachedAggregate_miss)
    with M e show ?thesis
      by (simp add: q_def)
  next
    assume M: "M = cachedMapReduce ?w arguments t" and e: "execution = MapReduce q"
      and x: "mapReduce_result env q = Resolved result"
      and st: "stored = (if truthy (usesInlineOutput q) then result
                         else js_and result (get_prop result ''collectionName''))"
    from x have ex: "mapReduceAsync ?w (queryArgsArray ps) t = (Resolved result, t)"
      by (simp add: mongo_world_fields(4) q_def)
    from st have st': "stored = (if truthy (usesInlineOutput (queryArgsArray ps)) then result
                         else js_and result (get_prop result ''collectionName''))"
      by (simp add: q_def)
    from opts found miss ex st' refl written cb called
    have "cachedMapReduce ?w arguments t
           = \<lparr> thrown = None,
             trace = [Collection name, FindOne h sel, MapReduce (queryArgsArray ps),
                      Update h sel ?doc (Obj [(''upsert'', Bool True)]), Callback [Null, result]]
                     @ (case ?r of None \<Rightarrow> []
                        | Some x \<Rightarrow> if update_sync ?w then [Callback [x]] else []),
             final = (case ?r of None \<Rightarrow> ?t'
                      | Some x \<Rightarrow> if update_sync ?w then snd (call ?w (callback ps) [x] ?t') else ?t') \<rparr>"
      unfolding ps_def name_def h_def sel_def by (rule cachedMapReduce_miss)
    with M e show ?thesis
      by (simp add: q_def)
  qed
  have same: "snd (call ?w (callback ps) [x] ?t') = ?t'" for x
    by (simp add: mongo_world_fields(7))
  from run have tr: "executions (trace M) = [execution]
       \<and> hd (callbacks (trace M)) = Callback [Null, result]"
    by (auto simp add: executions_def callbacks_def split: option.splits)
  from run have fin: "final M = ?t'"
    by (simp add: same split: option.splits)
  have doc': "?doc = Obj [(''queryHash'', Str (hashQueryArgs q)), (''cachedAt'', clock env),
                  (''cachedResult'', stored)]"
    by (simp add: mongo_world_fields(8) q_def)
  have "store_findOne (?t' h) sel = ?doc"
    by (simp add: store_findOne_store_update sel_def matches_queryHash)
  moreover from find_SomeD [OF existing]
  have "Str (hashQueryArgs (queryArgsArray ps)) \<in> set (queryHashes (t h))"
    by (force simp add: sel_def matches_queryHash queryHashes_def)
  then have "queryHashes (?t' h) = queryHashes (t h)"
    by (simp add: sel_def queryHashes_store_update)
  ultimately show ?thesis
    using tr fin doc' by simp
qed


text \<open>
  The forced updates of the test suite, \<^verbatim>\<open>{ forceUpdateCache: true, cacheCollectionName:
  'testCache' }\<close>, on a database that holds a stale entry for the query.
\<close>

theorem forced_update_overwrites_witness:
  "store_findOne (stale_store (Obj [(''collectionName'', Str ''testCache'')]))
       (Obj [(''queryHash'', Str (hashQueryArgs [Obj []]))])
     = Obj [(''queryHash'', Str (hashQueryArgs [Obj []])), (''cachedAt'', Num 0),
            (''cachedResult'', Str ''stale'')]
   \<and> executions (trace (cachedAggregate (mongo_world test_env)
         [Obj [(''forceUpdateCache'', Bool True), (''cacheCollectionName'', Str ''testCache'')],
          Obj [], Fun ''callback''] stale_store))
     = [Aggregate [Obj []]]
   \<and> store_findOne
        (final (cachedAggregate (mongo_world test_env)
           [Obj [(''forceUpdateCache'', Bool True), (''cacheCollectionName'', Str ''testCache'')],
            Obj [], Fun ''callback''] stale_store)
         (Obj [(''collectionName'', Str ''testCache'')]))
        (Obj [(''queryHash'', Str (hashQueryArgs [Obj []]))])
     = Obj [(''queryHash'', Str (hashQueryArgs [Obj []])), (''cachedAt'', Num 0),
            (''cachedResult'', Obj [(''some'', Str ''result'')])]
   \<and> store_findOne
        (final (cachedMapReduce (mongo_world test_env)
           [Obj [(''forceUpdateCache'', Bool True), (''cacheCollectionName'', Str ''testCache'')],
            Obj [], Fun ''callback''] stale_store)
         (Obj [(''collectionName'', Str ''testCache'')]))
        (Obj [(''queryHash'', Str (hashQueryArgs [Obj []]))])
     = Obj [(''queryHash'', Str (hashQueryArgs [Obj []])), (''cachedAt'', Num 0),
            (''cachedResult'', Str ''resultingWordCache'')]"
proof -
  let ?args = "[Obj [(''forceUpdateCache'', Bool True), (''cacheCollectionName'', Str ''testCache'')],
                Obj [], Fun ''callback'']"
  let ?ps = "parseCacheFuncParams ?args"
  let ?name = "js_or (get_prop (cacheOptions ?ps) ''cacheCollectionName'') (Str ''queryCache'')"
  let ?h = "collection (mongo_world test_env) ?name"
  let ?sel = "Obj [(''queryHash'', Str (hashQueryArgs (queryArgsArray ?ps)))]"
  let ?old = "Obj [(''queryHash'', Str (hashQueryArgs [Obj []])), (''cachedAt'', Num 0),
                   (''cachedResult'', Str ''stale'')]"
  have ps: "?ps = \<lparr> callback = Fun ''callback'',
                     cacheOptions = Obj [(''forceUpdateCache'', Bool True),
                                         (''cacheCollectionName'', Str ''testCache'')],
                     queryArgsArray = [Obj []] \<rparr>"
    by (simp add: parseCacheFuncParams_def index_def)
  have name: "?name = Str ''testCache''"
    by (simp add: ps js_or_def)
  have h: "?h = Obj [(''collectionName'', Str ''testCache'')]"
    by (simp add: name mongo_world_fields(1))
  have opts: "\<not> nullish (cacheOptions ?ps)"
    by (simp add: ps nullish_def)
  have cb: "typeof (callback ?ps) = ''function''"
    by (simp add: ps)
  have reads: "lookup_error test_env = None" and writable: "write_error test_env = None"
    and clock: "clock test_env = Num 0"
    by (simp_all add: test_env_def)
  have existing: "find (matches ?sel) (stale_store ?h) = Some ?old"
    by (simp add: ps stale_store_def matches_queryHash)
  have force: "truthy (get_prop (cacheOptions ?ps) ''forceUpdateCache'')"
    by (simp add: ps)
  have aggregate:
    "cachedAggregate (mongo_world test_env) ?args stale_store
       = cachedAggregate (mongo_world test_env) ?args stale_store
     \<and> Aggregate [Obj []] = Aggregate (queryArgsArray ?ps)
     \<and> aggregate_result test_env (queryArgsArray ?ps) = Resolved (Obj [(''some'', Str ''result'')])
     \<and> Obj [(''some'', Str ''result'')] = Obj [(''some'', Str ''result'')]"
    by (simp add: ps test_env_def)
  have mapReduce:
    "cachedMapReduce (mongo_world test_env) ?args stale_store
       = cachedMapReduce (mongo_world test_env) ?args stale_store
     \<and> MapReduce [Obj []] = MapReduce (queryArgsArray ?ps)
     \<and> mapReduce_result test_env (queryArgsArray ?ps)
         = Resolved (Obj [(''collectionName'', Str ''resultingWordCache'')])
     \<and> Str ''resultingWordCache''
         = (if truthy (usesInlineOutput (queryArgsArray ?ps))
            then Obj [(''collectionName'', Str ''resultingWordCache'')]
            else js_and (Obj [(''collectionName'', Str ''resultingWordCache'')])
                   (get_prop (Obj [(''collectionName'', Str ''resultingWordCache'')]) ''collectionName''))"
    by (simp add: ps test_env_def usesInlineOutput_def index_def js_and_def js_or_def)
  note a = forced_update_overwrites
      [OF opts cb reads writable existing force disjI1 [OF aggregate], unfolded h clock]
  note b = forced_update_overwrites
      [OF opts cb reads writable existing force disjI2 [OF mapReduce], unfolded h clock]
  have before: "store_findOne (stale_store (Obj [(''collectionName'', Str ''testCache'')]))
       (Obj [(''queryHash'', Str (hashQueryArgs [Obj []]))]) = ?old"
    by (simp add: store_findOne_def stale_store_def matches_queryHash)
  from a b before show ?thesis
    by (simp add: ps)
qed

end
